theory Spec2Isabelle
  imports Main
begin

section \<open>JavaScript values\<close>

text \<open>
  The values that travel through the controller are JSON documents: response payloads,
  items held in the store, labels. A number is held as its JavaScript string rendering
  (the result of \<^verbatim>\<open>String(n)\<close>, for example \<open>''1.5''\<close>; both zeros render as \<open>''0''\<close>),
  which is all the code ever observes of it; a number that is not finite renders as
  \<open>''Infinity''\<close>, \<open>''-Infinity''\<close> or \<open>''NaN''\<close>. An object is the list of its own
  properties in the order of enumeration, one entry per key. \<open>undefined\<close> is
  \<open>None\<close>.
\<close>

datatype json =
    JNull
  | JBool bool
  | JNum string
  | JStr string
  | JArr "json list"
  | JObj "(string \<times> json) list"

type_synonym jsval = "json option"

text \<open>The part of the store that the action module and the navigation bar read.\<close>

record state =
  judgements_submitting :: bool
  items_currentIndex :: nat
  items_items :: "json list"
  task_dataType :: jsval
  task_labelType :: jsval
  task_isBatchView :: bool
  demo_urlSequence :: jsval
  demo_text :: jsval

text \<open>The body handed to \<^verbatim>\<open>/predict\<close>, before serialisation.\<close>

datatype score_body = NullBody | ImagesBody jsval | TextBody jsval

subsection \<open>Property access, truthiness, conversion to string\<close>

text \<open>
  \<^verbatim>\<open>v[k]\<close> for a key \<open>k\<close> that no prototype defines (the code reads \<open>path\<close> and
  \<open>done\<close>): a TypeError on \<open>undefined\<close> and \<open>null\<close>, the own property of an
  object, \<open>undefined\<close> on every other value.
\<close>

fun get_prop :: "(jsval \<Rightarrow> string \<Rightarrow> string) \<Rightarrow> jsval \<Rightarrow> string \<Rightarrow> string + jsval" where
  "get_prop msg None k = Inl (msg None k)"
| "get_prop msg (Some JNull) k = Inl (msg (Some JNull) k)"
| "get_prop msg (Some (JObj kvs)) k = Inr (map_of kvs k)"
| "get_prop msg (Some v) k = Inr None"

text \<open>
  \<^verbatim>\<open>k in v\<close>, again for a key that no prototype defines: a TypeError when \<open>v\<close> is not
  an object.
\<close>

fun has_prop :: "(json \<Rightarrow> string) \<Rightarrow> string \<Rightarrow> json \<Rightarrow> string + bool" where
  "has_prop msg k (JObj kvs) = Inr (map_of kvs k \<noteq> None)"
| "has_prop msg k (JArr xs) = Inr False"
| "has_prop msg k v = Inl (msg v)"

fun truthy :: "jsval \<Rightarrow> bool" where
  "truthy None = False"
| "truthy (Some JNull) = False"
| "truthy (Some (JBool b)) = b"
| "truthy (Some (JNum n)) = (n \<noteq> ''0'' \<and> n \<noteq> ''NaN'')"
| "truthy (Some (JStr s)) = (s \<noteq> [])"
| "truthy (Some (JArr xs)) = True"
| "truthy (Some (JObj kvs)) = True"

fun join :: "string \<Rightarrow> string list \<Rightarrow> string" where
  "join sep [] = []"
| "join sep [x] = x"
| "join sep (x # y # ys) = x @ sep @ join sep (y # ys)"

text \<open>
  \<^verbatim>\<open>String(v)\<close>, the conversion that \<^verbatim>\<open>new Error(v)\<close> applies: the string
  (\<open>Inr\<close>) or the message of the TypeError that the conversion throws (\<open>Inl\<close>). An
  object converts through the \<open>toString\<close> of its prototype unless it has a property
  of that name of its own; such a property of a JSON document is never a function,
  and the conversion throws. An array joins the conversions of its elements, from the
  left, \<open>null\<close> giving the empty string.
\<close>

fun to_string :: "(json \<Rightarrow> string) \<Rightarrow> json \<Rightarrow> string + string"
  and elements_to_strings :: "(json \<Rightarrow> string) \<Rightarrow> json list \<Rightarrow> string + string list" where
  "to_string msg JNull = Inr ''null''"
| "to_string msg (JBool b) = Inr (if b then ''true'' else ''false'')"
| "to_string msg (JNum n) = Inr n"
| "to_string msg (JStr s) = Inr s"
| "to_string msg (JArr xs) =
     (case elements_to_strings msg xs of Inl m \<Rightarrow> Inl m | Inr ts \<Rightarrow> Inr (join '','' ts))"
| "to_string msg (JObj kvs) =
     (if map_of kvs ''toString'' \<noteq> None then Inl (msg (JObj kvs)) else Inr ''[object Object]'')"
| "elements_to_strings msg [] = Inr []"
| "elements_to_strings msg (x # xs) =
     (case (if x = JNull then Inr [] else to_string msg x) of
        Inl m \<Rightarrow> Inl m
      | Inr t \<Rightarrow>
          (case elements_to_strings msg xs of Inl m \<Rightarrow> Inl m | Inr ts \<Rightarrow> Inr (t # ts)))"

text \<open>
  \<^verbatim>\<open>new Error(v)\<close>: the \<open>message\<close> of the error made (\<open>Inr\<close>), or the message of
  the TypeError thrown while making it (\<open>Inl\<close>).
\<close>

definition Error_message :: "(json \<Rightarrow> string) \<Rightarrow> jsval \<Rightarrow> string + string" where
  "Error_message msg v = (case v of None \<Rightarrow> Inr [] | Some x \<Rightarrow> to_string msg x)"

subsection \<open>Serialisation\<close>

text \<open>
  \<^verbatim>\<open>JSON.stringify\<close>. A request body is modelled by the JSON document that its text
  denotes: a number that is not finite is written as \<open>null\<close>, at any depth, and
  everything else is written as it is. An object literal loses the properties whose
  value is \<open>undefined\<close>; inside an array literal \<open>undefined\<close> becomes \<open>null\<close>.
\<close>

fun json_stringify :: "json \<Rightarrow> json" where
  "json_stringify (JNum n) =
     (if n = ''Infinity'' \<or> n = ''-Infinity'' \<or> n = ''NaN'' then JNull else JNum n)"
| "json_stringify (JArr xs) = JArr (map json_stringify xs)"
| "json_stringify (JObj kvs) = JObj (map (\<lambda>(k, v). (k, json_stringify v)) kvs)"
| "json_stringify JNull = JNull"
| "json_stringify (JBool b) = JBool b"
| "json_stringify (JStr s) = JStr s"

definition stringify_object :: "(string \<times> jsval) list \<Rightarrow> json" where
  "stringify_object kvs =
     JObj (List.map_filter (\<lambda>(k, v). map_option (\<lambda>x. (k, json_stringify x)) v) kvs)"

definition stringify_array :: "jsval list \<Rightarrow> json" where
  "stringify_array vs = JArr (map (\<lambda>v. case v of None \<Rightarrow> JNull | Some x \<Rightarrow> json_stringify x) vs)"

fun stringify_score_body :: "score_body \<Rightarrow> json" where
  "stringify_score_body NullBody = JNull"
| "stringify_score_body (ImagesBody u) =
     stringify_object [(''type'', Some (JStr ''images'')), (''urls'', Some (stringify_array [u]))]"
| "stringify_score_body (TextBody t) =
     stringify_object [(''type'', Some (JStr ''text'')), (''texts'', Some (stringify_array [t]))]"

text \<open>
  \<^verbatim>\<open>new URLSearchParams(params).toString()\<close>: the pairs in the
  \<^verbatim>\<open>application/x-www-form-urlencoded\<close> form, strings being byte sequences.
\<close>

definition hex_digit :: "nat \<Rightarrow> char" where
  "hex_digit n = ''0123456789ABCDEF'' ! (n mod 16)"

definition urlencode_byte :: "char \<Rightarrow> string" where
  "urlencode_byte c =
     (if c \<in> set ''abcdefghijklmnopqrstuvwxyzABCDEFGHIJKLMNOPQRSTUVWXYZ0123456789*-._'' then [c]
      else if c = CHR '' '' then ''+''
      else [CHR ''%'', hex_digit (of_char c div 16), hex_digit (of_char c mod 16)])"

definition urlencode :: "string \<Rightarrow> string" where
  "urlencode s = concat (map urlencode_byte s)"

definition URLSearchParams_toString :: "(string \<times> string) list option \<Rightarrow> string" where
  "URLSearchParams_toString params =
     (case params of
        None \<Rightarrow> []
      | Some kvs \<Rightarrow> join ''&'' (map (\<lambda>(k, v). urlencode k @ ''='' @ urlencode v) kvs))"

section \<open>Actions\<close>

datatype action =
    FETCH_TASK
  | FETCH_TASK_SUCCESS json
  | FETCH_TASK_FAILURE string
  | FETCH_STATS
  | FETCH_STATS_SUCCESS json
  | FETCH_STATS_FAILURE string
  | FETCH_ITEMS
  | FETCH_ITEMS_SUCCESS json
  | FETCH_ITEMS_FAILURE string
  | RECORD_JUDGEMENT jsval jsval
  | RECORD_JUDGEMENT_SUCCESS jsval
  | RECORD_JUDGEMENT_FAILURE jsval string
  | SHOW_NEXT_ITEM
  | LABELLING_COMPLETE
  | SET_BOUNDING_BOX_CLASS jsval
  | CHANGE_SEQUENCE_INPUT jsval
  | SUBMIT_DATA score_body
  | SUBMIT_DATA_SUCCESS json
  | SUBMIT_DATA_FAILURE string
  | CHANGE_DEMO_SCORE_URL jsval
  | CHANGE_DEMO_SCORE_URL_SEQUENCE jsval
  | CHANGE_DEMO_SCORE_TEXT jsval
  | RECORD_JUDGEMENTS jsval
  | RECORD_JUDGEMENTS_SUCCESS jsval
  | RECORD_JUDGEMENTS_FAILURE jsval string
  | FETCH_BATCH_ITEMS
  | FETCH_BATCH_ITEMS_SUCCESS json
  | FETCH_BATCH_ITEMS_FAILURE string
  | BATCH_LABELLING_COMPLETE
  | SET_IS_BATCH_VIEW bool

definition fetchTask :: action where "fetchTask = FETCH_TASK"
definition fetchTaskSuccess :: "json \<Rightarrow> action" where "fetchTaskSuccess response = FETCH_TASK_SUCCESS response"
definition fetchTaskFailure :: "string \<Rightarrow> action" where "fetchTaskFailure error = FETCH_TASK_FAILURE error"
definition fetchStats :: action where "fetchStats = FETCH_STATS"
definition fetchStatsSuccess :: "json \<Rightarrow> action" where "fetchStatsSuccess response = FETCH_STATS_SUCCESS response"
definition fetchStatsFailure :: "string \<Rightarrow> action" where "fetchStatsFailure error = FETCH_STATS_FAILURE error"
definition fetchItems :: action where "fetchItems = FETCH_ITEMS"
definition fetchItemsSuccess :: "json \<Rightarrow> action" where "fetchItemsSuccess response = FETCH_ITEMS_SUCCESS response"
definition fetchItemsFailure :: "string \<Rightarrow> action" where "fetchItemsFailure error = FETCH_ITEMS_FAILURE error"
definition recordJudgement :: "jsval \<Rightarrow> jsval \<Rightarrow> action" where
  "recordJudgement itemId judgement = RECORD_JUDGEMENT itemId judgement"
definition recordJudgementSuccess :: "jsval \<Rightarrow> action" where
  "recordJudgementSuccess itemId = RECORD_JUDGEMENT_SUCCESS itemId"
definition recordJudgementFailure :: "jsval \<Rightarrow> string \<Rightarrow> action" where
  "recordJudgementFailure itemId error = RECORD_JUDGEMENT_FAILURE itemId error"
definition showNextItem :: action where "showNextItem = SHOW_NEXT_ITEM"
definition labellingComplete :: action where "labellingComplete = LABELLING_COMPLETE"
definition setBoundingBoxClass :: "jsval \<Rightarrow> action" where
  "setBoundingBoxClass boundingBoxClass = SET_BOUNDING_BOX_CLASS boundingBoxClass"
definition changeSequenceInput :: "jsval \<Rightarrow> action" where
  "changeSequenceInput sequenceInput = CHANGE_SEQUENCE_INPUT sequenceInput"
definition submitData :: "score_body \<Rightarrow> action" where "submitData data = SUBMIT_DATA data"
definition submitDataSuccess :: "json \<Rightarrow> action" where "submitDataSuccess response = SUBMIT_DATA_SUCCESS response"
definition submitDataFailure :: "string \<Rightarrow> action" where "submitDataFailure error = SUBMIT_DATA_FAILURE error"
definition changeDemoScoreUrl :: "jsval \<Rightarrow> action" where "changeDemoScoreUrl u = CHANGE_DEMO_SCORE_URL u"
definition changeDemoScoreUrlSequence :: "jsval \<Rightarrow> action" where
  "changeDemoScoreUrlSequence urlSequence = CHANGE_DEMO_SCORE_URL_SEQUENCE urlSequence"
definition changeDemoScoreText :: "jsval \<Rightarrow> action" where "changeDemoScoreText t = CHANGE_DEMO_SCORE_TEXT t"
definition recordJudgements :: "jsval \<Rightarrow> action" where
  "recordJudgements judgements = RECORD_JUDGEMENTS judgements"
definition recordJudgementsSuccess :: "jsval \<Rightarrow> action" where
  "recordJudgementsSuccess judgements = RECORD_JUDGEMENTS_SUCCESS judgements"
definition recordJudgementsFailure :: "jsval \<Rightarrow> string \<Rightarrow> action" where
  "recordJudgementsFailure judgements error = RECORD_JUDGEMENTS_FAILURE judgements error"
definition fetchBatchItems :: action where "fetchBatchItems = FETCH_BATCH_ITEMS"
definition fetchBatchItemsSuccess :: "json \<Rightarrow> action" where
  "fetchBatchItemsSuccess response = FETCH_BATCH_ITEMS_SUCCESS response"
definition fetchBatchItemsFailure :: "string \<Rightarrow> action" where
  "fetchBatchItemsFailure error = FETCH_BATCH_ITEMS_FAILURE error"
definition batchLabellingComplete :: action where "batchLabellingComplete = BATCH_LABELLING_COMPLETE"

section \<open>Requests, responses and the running system\<close>

datatype http_verb = GET | POST

text \<open>A request: the \<open>verb\<close> is the \<open>method\<close> option of \<^verbatim>\<open>fetch\<close>, GET by default.\<close>

record request =
  url :: string
  verb :: http_verb
  headers :: "(string \<times> string) list"
  body :: "json option"

text \<open>
  What \<^verbatim>\<open>fetch\<close> settles with: a rejection (no response at all) or a response, whose
  \<^verbatim>\<open>json()\<close> either parses or rejects with a message.
\<close>

record response =
  ok :: bool
  statusText :: string
  json_result :: "string + json"

datatype fetch_result = Rejected string | Resolved response

datatype event = Dispatch action | Fetch request | ConsoleLog string

text \<open>
  The closure handed to \<open>submitJudgementToBackend\<close> by \<open>submitJudgement\<close>: it
  captures \<open>currentIndex\<close> and \<open>items\<close> as read before the request.
\<close>

datatype callback = SubmitJudgementCallback nat "json list"

text \<open>The promise chain waiting on each request in flight.\<close>

datatype continuation =
    GetNextBatchThen
  | GetStatsThen
  | GetTaskThen
  | SubmitJudgementThen jsval callback
  | SubmitDataThen
  | SubmitBatchJudgementsThen jsval
  | FetchNextBatchItemsBatchThen

text \<open>
  The messages of the errors that the JavaScript engine itself raises are not fixed by
  the language, and the root reducer of the store is not part of the action module:
  both are parameters of the model.
\<close>

record env =
  reduce :: "state \<Rightarrow> action \<Rightarrow> state"
  in_operator_msg :: "json \<Rightarrow> string"
  read_property_msg :: "jsval \<Rightarrow> string \<Rightarrow> string"
  to_primitive_msg :: "json \<Rightarrow> string"

record sys =
  store :: state
  trace :: "event list"
  pending :: "continuation list"

text \<open>
  The running system: the store, everything done so far, and the requests in flight in
  the order they were issued. A dispatch reduces the store and is recorded; the reducer
  and the subscribers of the store are taken not to throw.
\<close>

definition dispatch :: "env \<Rightarrow> action \<Rightarrow> sys \<Rightarrow> sys" where
  "dispatch e a s = s\<lparr>store := reduce e (store s) a, trace := trace s @ [Dispatch a]\<rparr>"

definition fetch :: "request \<Rightarrow> continuation \<Rightarrow> sys \<Rightarrow> sys" where
  "fetch r k s = s\<lparr>trace := trace s @ [Fetch r], pending := pending s @ [k]\<rparr>"

definition console_log :: "string \<Rightarrow> sys \<Rightarrow> sys" where
  "console_log m s = s\<lparr>trace := trace s @ [ConsoleLog m]\<rparr>"

definition get_request :: "string \<Rightarrow> request" where
  "get_request u = \<lparr>url = u, verb = GET, headers = [], body = None\<rparr>"

definition post_json :: "string \<Rightarrow> json \<Rightarrow> request" where
  "post_json u b =
     \<lparr>url = u, verb = POST, headers = [(''Content-Type'', ''application/json'')], body = Some b\<rparr>"

section \<open>The thunks, up to the request\<close>

definition getNextBatch :: "env \<Rightarrow> (string \<times> string) list option \<Rightarrow> sys \<Rightarrow> sys" where
  "getNextBatch e params s =
     (let s = dispatch e fetchItems s;
          query = URLSearchParams_toString params
      in fetch (get_request (''/batch?'' @ query)) GetNextBatchThen s)"

definition getStats :: "env \<Rightarrow> sys \<Rightarrow> sys" where
  "getStats e s = fetch (get_request ''/history'') GetStatsThen (dispatch e fetchStats s)"

definition getTask :: "env \<Rightarrow> sys \<Rightarrow> sys" where
  "getTask e s = fetch (get_request ''/task'') GetTaskThen (dispatch e fetchTask s)"

definition submitJudgementToBackend :: "env \<Rightarrow> jsval \<Rightarrow> jsval \<Rightarrow> callback \<Rightarrow> sys \<Rightarrow> sys" where
  "submitJudgementToBackend e itemId judgement successCallback s =
     (let s = dispatch e (recordJudgement itemId judgement) s
      in fetch (post_json ''/judgements'' (stringify_object [(''id'', itemId), (''label'', judgement)]))
           (SubmitJudgementThen itemId successCallback) s)"

definition index :: "json list \<Rightarrow> nat \<Rightarrow> jsval" where
  "index xs i = (if i < length xs then Some (xs ! i) else None)"

text \<open>
  \<open>submitJudgement\<close> throws (\<open>Inl\<close>, with the engine's message) when there is no
  item at \<open>currentIndex\<close>; nothing has been dispatched by then.
\<close>

definition submitJudgement :: "env \<Rightarrow> jsval \<Rightarrow> sys \<Rightarrow> string + sys" where
  "submitJudgement e judgement s =
     (let state = store s in
      if judgements_submitting state then Inr (console_log ''Double called submitJudgement.'' s)
      else
        let currentIndex = items_currentIndex state;
            items = items_items state
        in case get_prop (read_property_msg e) (index items currentIndex) ''path'' of
             Inl m \<Rightarrow> Inl m
           | Inr itemId \<Rightarrow>
               Inr (submitJudgementToBackend e itemId judgement
                      (SubmitJudgementCallback currentIndex items) s))"

definition submitDataToScore :: "env \<Rightarrow> sys \<Rightarrow> sys" where
  "submitDataToScore e s =
     (let state = store s;
          body = (if task_dataType state = Some (JStr ''images'') then ImagesBody (demo_urlSequence state)
                  else if task_dataType state = Some (JStr ''text'') then TextBody (demo_text state)
                  else NullBody);
          s = dispatch e (submitData body) s
      in fetch (post_json ''/predict'' (stringify_score_body body)) SubmitDataThen s)"

definition submitBatchJudgementsToBackend :: "env \<Rightarrow> jsval \<Rightarrow> sys \<Rightarrow> sys" where
  "submitBatchJudgementsToBackend e judgements s =
     (let s = dispatch e (recordJudgements judgements) s
      in fetch (post_json ''/judgements/batch'' (stringify_object [(''labels'', judgements)]))
           (SubmitBatchJudgementsThen judgements) s)"

definition submitBatchJudgements :: "env \<Rightarrow> jsval \<Rightarrow> sys \<Rightarrow> sys" where
  "submitBatchJudgements e judgements s =
     (let state = store s in
      if judgements_submitting state then console_log ''Double called submitJudgements.'' s
      else submitBatchJudgementsToBackend e judgements s)"

definition fetchNextBatchItemsBatch :: "env \<Rightarrow> sys \<Rightarrow> sys" where
  "fetchNextBatchItemsBatch e s =
     fetch (get_request ''/batch_items_batch'') FetchNextBatchItemsBatchThen (dispatch e fetchBatchItems s)"

section \<open>The thunks, from the response on\<close>

text \<open>
  The first \<open>then\<close> of every chain: a rejected fetch and a response that is not
  \<open>ok\<close> go to the \<open>catch\<close> with a message, any other response with the outcome of
  \<^verbatim>\<open>response.json()\<close>.
\<close>

definition response_json :: "fetch_result \<Rightarrow> string + json" where
  "response_json r =
     (case r of
        Rejected m \<Rightarrow> Inl m
      | Resolved response \<Rightarrow>
          if \<not> ok response then Inl (statusText response) else json_result response)"

text \<open>
  The message of what \<^verbatim>\<open>throw new Error(v)\<close> throws: that of the error, or that of
  the TypeError raised in making it.
\<close>

definition thrown_message :: "env \<Rightarrow> jsval \<Rightarrow> string" where
  "thrown_message e v =
     (case Error_message (to_primitive_msg e) v of Inl t \<Rightarrow> t | Inr m \<Rightarrow> m)"

text \<open>The success callback of \<open>submitJudgement\<close>.\<close>

fun run_callback :: "env \<Rightarrow> callback \<Rightarrow> sys \<Rightarrow> sys" where
  "run_callback e (SubmitJudgementCallback currentIndex items) s =
     (let s = (if currentIndex + 4 > length items then getNextBatch e None s else s);
          s = getStats e s
      in dispatch e showNextItem s)"

fun settled :: "env \<Rightarrow> continuation \<Rightarrow> fetch_result \<Rightarrow> sys \<Rightarrow> sys" where
  "settled e GetNextBatchThen r s =
     (case response_json r of
        Inr json \<Rightarrow> dispatch e (fetchItemsSuccess json) s
      | Inl m \<Rightarrow> dispatch e (fetchItemsFailure (''Error fetching batch items: '' @ m)) s)"
| "settled e GetStatsThen r s =
     (case response_json r of
        Inr json \<Rightarrow> dispatch e (fetchStatsSuccess json) s
      | Inl m \<Rightarrow> dispatch e (fetchStatsFailure (''Error fetching stats: '' @ m)) s)"
| "settled e GetTaskThen r s =
     (case response_json r of
        Inr json \<Rightarrow> dispatch e (fetchTaskSuccess json) s
      | Inl m \<Rightarrow> dispatch e (fetchTaskFailure (''Error fetching stats: '' @ m)) s)"
| "settled e (SubmitJudgementThen itemId successCallback) r s =
     (case response_json r of
        Inr json \<Rightarrow>
          (case has_prop (in_operator_msg e) ''error'' json of
             Inr True \<Rightarrow>
               (case get_prop (read_property_msg e) (Some json) ''error'' of
                  Inr v \<Rightarrow> dispatch e (recordJudgementFailure itemId (thrown_message e v)) s
                | Inl m \<Rightarrow> dispatch e (recordJudgementFailure itemId m) s)
           | Inr False \<Rightarrow> run_callback e successCallback (dispatch e (recordJudgementSuccess itemId) s)
           | Inl m \<Rightarrow> dispatch e (recordJudgementFailure itemId m) s)
      | Inl m \<Rightarrow> dispatch e (recordJudgementFailure itemId m) s)"
| "settled e SubmitDataThen r s =
     (case response_json r of
        Inr json \<Rightarrow>
          (case has_prop (in_operator_msg e) ''error'' json of
             Inr True \<Rightarrow>
               (case get_prop (read_property_msg e) (Some json) ''error'' of
                  Inr v \<Rightarrow> dispatch e (submitDataFailure (thrown_message e v)) s
                | Inl m \<Rightarrow> dispatch e (submitDataFailure m) s)
           | Inr False \<Rightarrow> dispatch e (submitDataSuccess json) s
           | Inl m \<Rightarrow> dispatch e (submitDataFailure m) s)
      | Inl m \<Rightarrow> dispatch e (submitDataFailure m) s)"
| "settled e (SubmitBatchJudgementsThen judgements) r s =
     (case response_json r of
        Inr json \<Rightarrow>
          (case has_prop (in_operator_msg e) ''error'' json of
             Inr True \<Rightarrow>
               (case get_prop (read_property_msg e) (Some json) ''error'' of
                  Inr v \<Rightarrow> dispatch e (recordJudgementsFailure judgements (thrown_message e v)) s
                | Inl m \<Rightarrow> dispatch e (recordJudgementsFailure judgements m) s)
           | Inr False \<Rightarrow>
               (let s = dispatch e (recordJudgementsSuccess judgements) s;
                    s = fetchNextBatchItemsBatch e s
                in getStats e s)
           | Inl m \<Rightarrow> dispatch e (recordJudgementsFailure judgements m) s)
      | Inl m \<Rightarrow> dispatch e (recordJudgementsFailure judgements m) s)"
| "settled e FetchNextBatchItemsBatchThen r s =
     (case response_json r of
        Inr json \<Rightarrow>
          (case get_prop (read_property_msg e) (Some json) ''done'' of
             Inr d \<Rightarrow>
               if truthy d then dispatch e batchLabellingComplete s
               else dispatch e (fetchBatchItemsSuccess json) s
           | Inl m \<Rightarrow> dispatch e (fetchBatchItemsFailure (''Error fetching batch items: '' @ m)) s)
      | Inl m \<Rightarrow> dispatch e (fetchBatchItemsFailure (''Error fetching batch items: '' @ m)) s)"

text \<open>
  The \<open>i\<close>-th request in flight settles with \<open>r\<close>; \<open>None\<close> when there is no such
  request. Requests settle in any order.
\<close>

definition settle :: "env \<Rightarrow> nat \<Rightarrow> fetch_result \<Rightarrow> sys \<Rightarrow> sys option" where
  "settle e i r s =
     (if i < length (pending s)
      then Some (settled e (pending s ! i) r (s\<lparr>pending := take i (pending s) @ drop (Suc i) (pending s)\<rparr>))
      else None)"

text \<open>What a step added to the trace.\<close>

definition events_since :: "sys \<Rightarrow> sys \<Rightarrow> event list" where
  "events_since s s' = drop (length (trace s)) (trace s')"

text \<open>
  A submission is accepted when its chain reaches the success branch: the response is
  \<open>ok\<close>, parses, and the payload is an object or array without an \<open>error\<close>
  property.
\<close>

definition accepted :: "env \<Rightarrow> fetch_result \<Rightarrow> bool" where
  "accepted e r =
     (case response_json r of
        Inr json \<Rightarrow> has_prop (in_operator_msg e) ''error'' json = Inr False
      | Inl m \<Rightarrow> False)"

fun fetch_of :: "event \<Rightarrow> request option" where
  "fetch_of (Fetch r) = Some r"
| "fetch_of (Dispatch a) = None"
| "fetch_of (ConsoleLog m) = None"

fun dispatch_of :: "event \<Rightarrow> action option" where
  "dispatch_of (Dispatch a) = Some a"
| "dispatch_of (Fetch r) = None"
| "dispatch_of (ConsoleLog m) = None"

section \<open>The navigation bar\<close>

text \<open>
  An element of the rendered tree, reduced to its tag, its click handler and its
  children. The handlers are those of \<open>mapDispatchToProps\<close>.
\<close>

datatype handler = onClickSingle | onClickBatch

datatype element = Element string "handler option" "element list"


text \<open>The toggle that \<open>render\<close> builds for the tasks that support the batch view.\<close>

definition toggleBatchView :: "state \<Rightarrow> element option" where
  "toggleBatchView st =
     (if task_dataType st = Some (JStr ''images'') \<and>
         (task_labelType st = Some (JStr ''binary'') \<or>
          task_labelType st = Some (JStr ''classification''))
      then Some (Element ''div'' None
                  [Element ''label'' (Some onClickSingle) [Element ''input'' None []],
                   Element ''label'' (Some onClickBatch) [Element ''input'' None []]])
      else None)"

text \<open>
  The tree that \<open>render\<close> returns. The toggle is built but not placed in it; the
  counters shown in the links are texts and carry no handler.
\<close>

definition render :: "state \<Rightarrow> element" where
  "render st =
     Element ''nav'' None
       [Element ''button'' None [Element ''span'' None []],
        Element ''a'' None [Element ''i'' None []],
        Element ''div'' None
          [Element ''div'' None
             [Element ''a'' None [Element ''b'' None []],
              Element ''a'' None [Element ''b'' None []],
              Element ''a'' None [Element ''b'' None [Element ''span'' None []]]]]]"

fun handlers :: "element \<Rightarrow> handler list" where
  "handlers (Element tag h children) =
     (case h of None \<Rightarrow> [] | Some x \<Rightarrow> [x]) @ concat (map handlers children)"

section \<open>The submission guard in the store\<close>

text \<open>
  Modelled from the spec: the reducer of the store is not among the sources; of the
  judgements slice the specification says that the submission guard is set true exactly
  when a submission pipeline begins and is set false exactly when that pipeline's
  request settles, regardless of outcome. The other slices are left as they are.
\<close>

fun guard_reducer :: "state \<Rightarrow> action \<Rightarrow> state" where
  "guard_reducer st (RECORD_JUDGEMENT itemId judgement) = st\<lparr>judgements_submitting := True\<rparr>"
| "guard_reducer st (RECORD_JUDGEMENTS judgements) = st\<lparr>judgements_submitting := True\<rparr>"
| "guard_reducer st (RECORD_JUDGEMENT_SUCCESS itemId) = st\<lparr>judgements_submitting := False\<rparr>"
| "guard_reducer st (RECORD_JUDGEMENT_FAILURE itemId error) = st\<lparr>judgements_submitting := False\<rparr>"
| "guard_reducer st (RECORD_JUDGEMENTS_SUCCESS judgements) = st\<lparr>judgements_submitting := False\<rparr>"
| "guard_reducer st (RECORD_JUDGEMENTS_FAILURE judgements error) = st\<lparr>judgements_submitting := False\<rparr>"
| "guard_reducer st a = st"


section \<open>Sessions\<close>

text \<open>
  What a view can ask of the action module: one of the thunks, or the dispatch of a
  plain action. The actions that record a judgement are dispatched by the two backend
  thunks only, and these are called from behind the guards only.
\<close>

datatype intent =
    GetTask
  | GetStats
  | GetNextBatch "(string \<times> string) list option"
  | FetchNextBatchItemsBatch
  | SubmitDataToScore
  | SubmitJudgement jsval
  | SubmitBatchJudgements jsval
  | DispatchAction action

fun record_action :: "action \<Rightarrow> bool" where
  "record_action (RECORD_JUDGEMENT itemId judgement) = True"
| "record_action (RECORD_JUDGEMENT_SUCCESS itemId) = True"
| "record_action (RECORD_JUDGEMENT_FAILURE itemId error) = True"
| "record_action (RECORD_JUDGEMENTS judgements) = True"
| "record_action (RECORD_JUDGEMENTS_SUCCESS judgements) = True"
| "record_action (RECORD_JUDGEMENTS_FAILURE judgements error) = True"
| "record_action a = False"

text \<open>
  An intent that throws leaves the system as it was: \<open>submitJudgement\<close> throws
  before it dispatches anything.
\<close>

fun run_intent :: "env \<Rightarrow> intent \<Rightarrow> sys \<Rightarrow> sys" where
  "run_intent e GetTask s = getTask e s"
| "run_intent e GetStats s = getStats e s"
| "run_intent e (GetNextBatch params) s = getNextBatch e params s"
| "run_intent e FetchNextBatchItemsBatch s = fetchNextBatchItemsBatch e s"
| "run_intent e SubmitDataToScore s = submitDataToScore e s"
| "run_intent e (SubmitJudgement judgement) s =
     (case submitJudgement e judgement s of Inl m \<Rightarrow> s | Inr s' \<Rightarrow> s')"
| "run_intent e (SubmitBatchJudgements judgements) s = submitBatchJudgements e judgements s"
| "run_intent e (DispatchAction a) s = dispatch e a s"

text \<open>
  A session is a sequence of steps: a view asks for something, or a request in flight
  settles. \<open>run\<close> is \<open>None\<close> when a step is not possible: no such request, or a
  view dispatching an action that records a judgement.
\<close>

datatype step = Invoke intent | Settle nat fetch_result

fun run_step :: "env \<Rightarrow> step \<Rightarrow> sys \<Rightarrow> sys option" where
  "run_step e (Invoke (DispatchAction a)) s =
     (if record_action a then None else Some (dispatch e a s))"
| "run_step e (Invoke i) s = Some (run_intent e i s)"
| "run_step e (Settle n r) s = settle e n r s"

fun run :: "env \<Rightarrow> step list \<Rightarrow> sys \<Rightarrow> sys option" where
  "run e [] s = Some s"
| "run e (x # xs) s = (case run_step e x s of None \<Rightarrow> None | Some s' \<Rightarrow> run e xs s')"

text \<open>The number of requests in flight that are submissions of judgements.\<close>

fun is_submission :: "continuation \<Rightarrow> bool" where
  "is_submission (SubmitJudgementThen itemId successCallback) = True"
| "is_submission (SubmitBatchJudgementsThen judgements) = True"
| "is_submission k = False"

definition submissions_in_flight :: "sys \<Rightarrow> nat" where
  "submissions_in_flight s = length (filter is_submission (pending s))"

section \<open>Concrete inputs\<close>

text \<open>An environment with the messages of one engine, and a session with nothing in flight.\<close>

definition example_env :: env where
  "example_env =
     \<lparr>reduce = guard_reducer,
      in_operator_msg = (\<lambda>v. ''Cannot use in operator''),
      read_property_msg = (\<lambda>v k. ''Cannot read properties''),
      to_primitive_msg = (\<lambda>v. ''Cannot convert object to primitive value'')\<rparr>"


definition session :: "bool \<Rightarrow> nat \<Rightarrow> json list \<Rightarrow> jsval \<Rightarrow> jsval \<Rightarrow> sys" where
  "session submitting i xs dataType labelType =
     \<lparr>store = \<lparr>judgements_submitting = submitting, items_currentIndex = i, items_items = xs,
                task_dataType = dataType, task_labelType = labelType, task_isBatchView = False,
                demo_urlSequence = None, demo_text = None\<rparr>,
      trace = [], pending = []\<rparr>"

definition ten_items :: "json list" where
  "ten_items = replicate 10 (JObj [(''path'', JStr ''a'')])"

definition ok_response :: "json \<Rightarrow> fetch_result" where
  "ok_response j = Resolved \<lparr>ok = True, statusText = ''OK'', json_result = Inr j\<rparr>"

definition status_response :: "string \<Rightarrow> fetch_result" where
  "status_response t = Resolved \<lparr>ok = False, statusText = t, json_result = Inl ''Unexpected token''\<rparr>"

section \<open>Basic facts about the running system\<close>

lemma dispatch_fields [simp]:
  "trace (dispatch e a s) = trace s @ [Dispatch a]"
  "pending (dispatch e a s) = pending s"
  "store (dispatch e a s) = reduce e (store s) a"
  by (simp_all add: dispatch_def)

lemma fetch_fields [simp]:
  "trace (fetch r k s) = trace s @ [Fetch r]"
  "pending (fetch r k s) = pending s @ [k]"
  "store (fetch r k s) = store s"
  by (simp_all add: fetch_def)

lemma console_log_fields [simp]:
  "trace (console_log m s) = trace s @ [ConsoleLog m]"
  "pending (console_log m s) = pending s"
  "store (console_log m s) = store s"
  by (simp_all add: console_log_def)

lemma pending_update_fields [simp]:
  "trace (s\<lparr>pending := ps\<rparr>) = trace s"
  "store (s\<lparr>pending := ps\<rparr>) = store s"
  by simp_all

lemma events_since_append: "trace s' = trace s @ evs \<Longrightarrow> events_since s s' = evs"
  by (simp add: events_since_def)

lemma getNextBatch_fields [simp]:
  "trace (getNextBatch e params s) =
     trace s @ [Dispatch FETCH_ITEMS, Fetch (get_request (''/batch?'' @ URLSearchParams_toString params))]"
  "pending (getNextBatch e params s) = pending s @ [GetNextBatchThen]"
  by (simp_all add: getNextBatch_def Let_def fetchItems_def)

lemma getStats_fields [simp]:
  "trace (getStats e s) = trace s @ [Dispatch FETCH_STATS, Fetch (get_request ''/history'')]"
  "pending (getStats e s) = pending s @ [GetStatsThen]"
  by (simp_all add: getStats_def fetchStats_def)

lemma getTask_fields [simp]:
  "trace (getTask e s) = trace s @ [Dispatch FETCH_TASK, Fetch (get_request ''/task'')]"
  "pending (getTask e s) = pending s @ [GetTaskThen]"
  by (simp_all add: getTask_def fetchTask_def)

lemma fetchNextBatchItemsBatch_fields [simp]:
  "trace (fetchNextBatchItemsBatch e s) =
     trace s @ [Dispatch FETCH_BATCH_ITEMS, Fetch (get_request ''/batch_items_batch'')]"
  "pending (fetchNextBatchItemsBatch e s) = pending s @ [FetchNextBatchItemsBatchThen]"
  by (simp_all add: fetchNextBatchItemsBatch_def fetchBatchItems_def)

lemma submitJudgementToBackend_fields [simp]:
  "trace (submitJudgementToBackend e itemId judgement cb s) =
     trace s @ [Dispatch (RECORD_JUDGEMENT itemId judgement),
                Fetch (post_json ''/judgements'' (stringify_object [(''id'', itemId), (''label'', judgement)]))]"
  "pending (submitJudgementToBackend e itemId judgement cb s) = pending s @ [SubmitJudgementThen itemId cb]"
  "store (submitJudgementToBackend e itemId judgement cb s) = reduce e (store s) (RECORD_JUDGEMENT itemId judgement)"
  by (simp_all add: submitJudgementToBackend_def Let_def recordJudgement_def)

lemma settle_last:
  "pending s1 = ps @ [k] \<Longrightarrow> settle e (length ps) r s1 = Some (settled e k r (s1\<lparr>pending := ps\<rparr>))"
  by (simp add: settle_def nth_append)

lemma submitJudgement_begins:
  assumes "\<not> judgements_submitting (store s)" and "submitJudgement e judgement s = Inr s1"
  shows "\<exists>itemId. get_prop (read_property_msg e) (index (items_items (store s)) (items_currentIndex (store s))) ''path'' = Inr itemId
           \<and> s1 = submitJudgementToBackend e itemId judgement
                    (SubmitJudgementCallback (items_currentIndex (store s)) (items_items (store s))) s"
  using assms by (auto simp: submitJudgement_def Let_def split: sum.splits)

lemma submitJudgement_on_object:
  "\<not> judgements_submitting (store s) \<Longrightarrow>
   index (items_items (store s)) (items_currentIndex (store s)) = Some (JObj kvs) \<Longrightarrow>
   submitJudgement e judgement s
     = Inr (submitJudgementToBackend e (map_of kvs ''path'') judgement
              (SubmitJudgementCallback (items_currentIndex (store s)) (items_items (store s))) s)"
  by (simp add: submitJudgement_def Let_def)

lemma submitBatchJudgements_begins:
  "\<not> judgements_submitting (store s) \<Longrightarrow>
   store (submitBatchJudgements e judgements s) = reduce e (store s) (RECORD_JUDGEMENTS judgements)"
  by (simp add: submitBatchJudgements_def submitBatchJudgementsToBackend_def Let_def
        recordJudgements_def)

lemma run_callback_trace:
  "trace (run_callback e (SubmitJudgementCallback i xs) s) =
     trace s @ (if i + 4 > length xs then [Dispatch FETCH_ITEMS, Fetch (get_request ''/batch?'')] else [])
       @ [Dispatch FETCH_STATS, Fetch (get_request ''/history''), Dispatch SHOW_NEXT_ITEM]"
  by (simp add: Let_def showNextItem_def URLSearchParams_toString_def)

lemma settled_judgement_accepted:
  "accepted e r \<Longrightarrow>
   settled e (SubmitJudgementThen itemId cb) r s =
     run_callback e cb (dispatch e (recordJudgementSuccess itemId) s)"
  by (auto simp: accepted_def split: sum.splits)

lemma settled_judgement_transport:
  "\<not> ok resp \<Longrightarrow>
   settled e (SubmitJudgementThen itemId cb) (Resolved resp) s
     = dispatch e (RECORD_JUDGEMENT_FAILURE itemId (statusText resp)) s"
  by (simp add: response_json_def recordJudgementFailure_def)

lemma settled_judgement_error_field:
  "ok resp \<Longrightarrow> json_result resp = Inr (JObj kvs) \<Longrightarrow> map_of kvs ''error'' = Some v \<Longrightarrow>
   settled e (SubmitJudgementThen itemId cb) (Resolved resp) s
     = dispatch e (RECORD_JUDGEMENT_FAILURE itemId (thrown_message e (Some v))) s"
  by (simp add: response_json_def recordJudgementFailure_def)

lemma thrown_message_string: "thrown_message e (Some (JStr m)) = m"
  by (simp add: thrown_message_def Error_message_def)

lemma thrown_message_own_toString:
  "map_of kvs ''toString'' = Some t \<Longrightarrow>
   thrown_message e (Some (JObj kvs)) = to_primitive_msg e (JObj kvs)"
  by (simp add: thrown_message_def Error_message_def)

lemma thrown_message_plain_object:
  "map_of kvs ''toString'' = None \<Longrightarrow> thrown_message e (Some (JObj kvs)) = ''[object Object]''"
  by (simp add: thrown_message_def Error_message_def)

lemma accepted_submission_events:
  assumes idle: "\<not> judgements_submitting (store s)"
    and begun: "submitJudgement e judgement s = Inr s1"
    and acc: "accepted e r"
  shows "\<exists>s2 itemId. settle e (length (pending s)) r s1 = Some s2
           \<and> events_since s1 s2 =
               [Dispatch (RECORD_JUDGEMENT_SUCCESS itemId)]
               @ (if items_currentIndex (store s) + 4 > length (items_items (store s))
                  then [Dispatch FETCH_ITEMS, Fetch (get_request ''/batch?'')] else [])
               @ [Dispatch FETCH_STATS, Fetch (get_request ''/history''), Dispatch SHOW_NEXT_ITEM]"
proof -
  let ?cb = "SubmitJudgementCallback (items_currentIndex (store s)) (items_items (store s))"
  from submitJudgement_begins [OF idle begun] obtain itemId where
    s1: "s1 = submitJudgementToBackend e itemId judgement ?cb s" by blast
  have p: "pending s1 = pending s @ [SubmitJudgementThen itemId ?cb]"
    by (simp add: s1)
  let ?s2 = "settled e (SubmitJudgementThen itemId ?cb) r (s1\<lparr>pending := pending s\<rparr>)"
  have st: "settle e (length (pending s)) r s1 = Some ?s2"
    by (rule settle_last [OF p])
  have "trace ?s2 = trace s1 @ [Dispatch (RECORD_JUDGEMENT_SUCCESS itemId)]
               @ (if items_currentIndex (store s) + 4 > length (items_items (store s))
                  then [Dispatch FETCH_ITEMS, Fetch (get_request ''/batch?'')] else [])
               @ [Dispatch FETCH_STATS, Fetch (get_request ''/history''), Dispatch SHOW_NEXT_ITEM]"
    by (simp only: settled_judgement_accepted [OF acc] run_callback_trace)
       (simp add: recordJudgementSuccess_def)
  then show ?thesis using st events_since_append by blast
qed

section \<open>Facts about the concrete inputs\<close>

lemma ten_items_facts:
  "length ten_items = 10"
  "i < 10 \<Longrightarrow> index ten_items i = Some (JObj [(''path'', JStr ''a'')])"
  by (simp_all add: ten_items_def index_def)

lemma session_fields:
  "store (session b i xs d l) =
     \<lparr>judgements_submitting = b, items_currentIndex = i, items_items = xs,
      task_dataType = d, task_labelType = l, task_isBatchView = False,
      demo_urlSequence = None, demo_text = None\<rparr>"
  "trace (session b i xs d l) = []"
  "pending (session b i xs d l) = []"
  by (simp_all add: session_def)

lemma example_env_fields:
  "reduce example_env = guard_reducer"
  "in_operator_msg example_env v = ''Cannot use in operator''"
  "read_property_msg example_env jv k = ''Cannot read properties''"
  "to_primitive_msg example_env v = ''Cannot convert object to primitive value''"
  by (simp_all add: example_env_def)

lemma accepted_empty_object: "accepted e (ok_response (JObj []))"
  by (simp add: accepted_def ok_response_def response_json_def)

lemma submit_on_ten_items:
  "i < 10 \<Longrightarrow>
   submitJudgement example_env judgement (session False i ten_items d l)
     = Inr (submitJudgementToBackend example_env (Some (JStr ''a'')) judgement
              (SubmitJudgementCallback i ten_items) (session False i ten_items d l))"
  by (simp add: submitJudgement_def Let_def session_fields ten_items_facts)

section \<open>The submission guard\<close>

text \<open>
  Claim C1. When the \<open>submitting\<close> flag of the store is set, \<open>submitJudgement\<close> and
  \<open>submitBatchJudgements\<close> return at the guard: each leaves one console line, issues
  no request (nothing is added to the requests in flight), dispatches no action, and
  the store is what it was.
\<close>

theorem submission_dropped_while_submitting:
  assumes "judgements_submitting (store s)"
  shows "(\<exists>s1. submitJudgement e judgement s = Inr s1
            \<and> events_since s s1 = [ConsoleLog ''Double called submitJudgement.'']
            \<and> pending s1 = pending s \<and> store s1 = store s)
       \<and> events_since s (submitBatchJudgements e judgements s) = [ConsoleLog ''Double called submitJudgements.'']
       \<and> pending (submitBatchJudgements e judgements s) = pending s
       \<and> store (submitBatchJudgements e judgements s) = store s"
  using assms
  by (simp add: submitJudgement_def submitBatchJudgements_def events_since_def)

text \<open>The statement above at a concrete session.\<close>

theorem submission_dropped_while_submitting_witness:
  "judgements_submitting (store (session True 0 [] None None))
   \<and> submitJudgement example_env (Some (JStr ''cat'')) (session True 0 [] None None)
       = Inr (console_log ''Double called submitJudgement.'' (session True 0 [] None None))
   \<and> trace (submitBatchJudgements example_env (Some (JArr [])) (session True 0 [] None None))
       = [ConsoleLog ''Double called submitJudgements.'']
   \<and> pending (submitBatchJudgements example_env (Some (JArr [])) (session True 0 [] None None)) = []"
  using submission_dropped_while_submitting
    [where s = "session True 0 [] None None" and e = example_env
       and judgement = "Some (JStr ''cat'')" and judgements = "Some (JArr [])"]
  by (simp add: session_fields events_since_def submitJudgement_def)

lemma guard_reducer_other:
  "\<not> record_action a \<Longrightarrow>
   judgements_submitting (guard_reducer st a) = judgements_submitting st"
  by (cases a) simp_all

lemma in_flight_fields [simp]:
  "submissions_in_flight (dispatch e a s) = submissions_in_flight s"
  "submissions_in_flight (console_log m s) = submissions_in_flight s"
  "submissions_in_flight (fetch r k s) = submissions_in_flight s + (if is_submission k then 1 else 0)"
  by (simp_all add: submissions_in_flight_def)

lemma fetch_thunks_keep_guard:
  assumes g: "reduce e = guard_reducer"
  shows "submissions_in_flight (getTask e s) = submissions_in_flight s"
    and "judgements_submitting (store (getTask e s)) = judgements_submitting (store s)"
    and "submissions_in_flight (getStats e s) = submissions_in_flight s"
    and "judgements_submitting (store (getStats e s)) = judgements_submitting (store s)"
    and "submissions_in_flight (getNextBatch e params s) = submissions_in_flight s"
    and "judgements_submitting (store (getNextBatch e params s)) = judgements_submitting (store s)"
    and "submissions_in_flight (fetchNextBatchItemsBatch e s) = submissions_in_flight s"
    and "judgements_submitting (store (fetchNextBatchItemsBatch e s)) = judgements_submitting (store s)"
    and "submissions_in_flight (submitDataToScore e s) = submissions_in_flight s"
    and "judgements_submitting (store (submitDataToScore e s)) = judgements_submitting (store s)"
  by (simp_all add: g getTask_def getStats_def getNextBatch_def fetchNextBatchItemsBatch_def
        submitDataToScore_def Let_def fetchTask_def fetchStats_def fetchItems_def
        fetchBatchItems_def submitData_def)

lemma backend_thunks_raise_guard:
  assumes g: "reduce e = guard_reducer"
  shows "submissions_in_flight (submitJudgementToBackend e itemId judgement cb s)
           = Suc (submissions_in_flight s)"
    and "judgements_submitting (store (submitJudgementToBackend e itemId judgement cb s))"
    and "submissions_in_flight (submitBatchJudgementsToBackend e judgements s)
           = Suc (submissions_in_flight s)"
    and "judgements_submitting (store (submitBatchJudgementsToBackend e judgements s))"
  by (simp_all add: g submitJudgementToBackend_def submitBatchJudgementsToBackend_def Let_def
        recordJudgement_def recordJudgements_def)

lemma run_callback_keeps_guard:
  assumes g: "reduce e = guard_reducer"
  shows "submissions_in_flight (run_callback e cb s) = submissions_in_flight s"
    and "judgements_submitting (store (run_callback e cb s)) = judgements_submitting (store s)"
  by (cases cb; simp add: g Let_def showNextItem_def fetch_thunks_keep_guard [OF g])+

lemma settled_fetch_keeps_guard:
  assumes g: "reduce e = guard_reducer" and k: "\<not> is_submission k"
  shows "submissions_in_flight (settled e k r s) = submissions_in_flight s
       \<and> judgements_submitting (store (settled e k r s)) = judgements_submitting (store s)"
proof (cases k)
  case GetNextBatchThen
  then show ?thesis
    by (simp add: g fetchItemsSuccess_def fetchItemsFailure_def split: sum.splits)
next
  case GetStatsThen
  then show ?thesis
    by (simp add: g fetchStatsSuccess_def fetchStatsFailure_def split: sum.splits)
next
  case GetTaskThen
  then show ?thesis
    by (simp add: g fetchTaskSuccess_def fetchTaskFailure_def split: sum.splits)
next
  case (SubmitJudgementThen itemId cb)
  with k show ?thesis by simp
next
  case SubmitDataThen
  then show ?thesis
    by (simp add: g submitDataSuccess_def submitDataFailure_def split: sum.splits bool.splits)
next
  case (SubmitBatchJudgementsThen judgements)
  with k show ?thesis by simp
next
  case FetchNextBatchItemsBatchThen
  then show ?thesis
    by (simp add: g batchLabellingComplete_def fetchBatchItemsSuccess_def
          fetchBatchItemsFailure_def split: sum.splits)
qed

lemma settled_submission_clears_guard:
  assumes g: "reduce e = guard_reducer" and k: "is_submission k"
  shows "submissions_in_flight (settled e k r s) = submissions_in_flight s
       \<and> \<not> judgements_submitting (store (settled e k r s))"
proof (cases k)
  case (SubmitJudgementThen itemId cb)
  then show ?thesis
    by (simp add: g recordJudgementSuccess_def recordJudgementFailure_def
          run_callback_keeps_guard [OF g] split: sum.splits bool.splits del: run_callback.simps)
next
  case (SubmitBatchJudgementsThen judgements)
  then show ?thesis
    by (simp add: g recordJudgementsSuccess_def recordJudgementsFailure_def Let_def
          fetch_thunks_keep_guard [OF g] split: sum.splits bool.splits)
qed (use k in simp_all)

lemma in_flight_without:
  assumes "n < length (pending s)"
  shows "submissions_in_flight (s\<lparr>pending := take n (pending s) @ drop (Suc n) (pending s)\<rparr>)
           + (if is_submission (pending s ! n) then 1 else 0)
         = submissions_in_flight s"
proof -
  have "pending s = take n (pending s) @ pending s ! n # drop (Suc n) (pending s)"
    using assms by (simp add: id_take_nth_drop)
  then have "filter is_submission (pending s)
               = filter is_submission (take n (pending s))
                 @ filter is_submission [pending s ! n]
                 @ filter is_submission (drop (Suc n) (pending s))"
    by (metis append_Cons append_Nil filter_append)
  then show ?thesis
    by (simp add: submissions_in_flight_def)
qed

lemma settle_keeps_guard_invariant:
  assumes g: "reduce e = guard_reducer"
    and one: "submissions_in_flight s \<le> 1"
    and raised: "0 < submissions_in_flight s \<longrightarrow> judgements_submitting (store s)"
    and step: "settle e n r s = Some s'"
  shows "submissions_in_flight s' \<le> 1
       \<and> (0 < submissions_in_flight s' \<longrightarrow> judgements_submitting (store s'))"
proof -
  let ?s0 = "s\<lparr>pending := take n (pending s) @ drop (Suc n) (pending s)\<rparr>"
  from step have n: "n < length (pending s)" and s': "s' = settled e (pending s ! n) r ?s0"
    by (auto simp: settle_def split: if_splits)
  note rest = in_flight_without [OF n]
  show ?thesis
  proof (cases "is_submission (pending s ! n)")
    case True
    with rest one have "submissions_in_flight ?s0 = 0" by simp
    with settled_submission_clears_guard [OF g True, of r ?s0] show ?thesis
      by (simp add: s')
  next
    case False
    with rest have "submissions_in_flight ?s0 = submissions_in_flight s" by simp
    with settled_fetch_keeps_guard [OF g False, of r ?s0] one raised show ?thesis
      by (simp add: s')
  qed
qed

lemma invoke_keeps_guard_invariant:
  assumes g: "reduce e = guard_reducer"
    and one: "submissions_in_flight s \<le> 1"
    and raised: "0 < submissions_in_flight s \<longrightarrow> judgements_submitting (store s)"
    and step: "run_step e (Invoke i) s = Some s'"
  shows "submissions_in_flight s' \<le> 1
       \<and> (0 < submissions_in_flight s' \<longrightarrow> judgements_submitting (store s'))"
proof (cases i)
  case (SubmitJudgement judgement)
  show ?thesis
  proof (cases "judgements_submitting (store s)")
    case True
    with step SubmitJudgement one show ?thesis
      by (auto simp: submitJudgement_def)
  next
    case False
    with raised have "submissions_in_flight s = 0" by simp
    with step SubmitJudgement False show ?thesis
      by (auto simp: g submitJudgement_def Let_def backend_thunks_raise_guard [OF g]
            split: sum.splits)
  qed
next
  case (SubmitBatchJudgements judgements)
  show ?thesis
  proof (cases "judgements_submitting (store s)")
    case True
    with step SubmitBatchJudgements one show ?thesis
      by (auto simp: submitBatchJudgements_def)
  next
    case False
    with raised have "submissions_in_flight s = 0" by simp
    with step SubmitBatchJudgements False show ?thesis
      by (auto simp: g submitBatchJudgements_def backend_thunks_raise_guard [OF g])
  qed
next
  case (DispatchAction a)
  with step have "\<not> record_action a" and "s' = dispatch e a s"
    by (auto split: if_splits)
  with one raised show ?thesis
    by (simp add: g guard_reducer_other)
qed (use step one raised in \<open>auto simp: fetch_thunks_keep_guard [OF g]\<close>)

lemma run_keeps_guard_invariant:
  assumes g: "reduce e = guard_reducer"
  shows "submissions_in_flight s0 \<le> 1 \<Longrightarrow>
         (0 < submissions_in_flight s0 \<longrightarrow> judgements_submitting (store s0)) \<Longrightarrow>
         run e steps s0 = Some s \<Longrightarrow>
         submissions_in_flight s \<le> 1
           \<and> (0 < submissions_in_flight s \<longrightarrow> judgements_submitting (store s))"
proof (induction steps arbitrary: s0)
  case Nil
  then show ?case by simp
next
  case (Cons x xs)
  from Cons.prems(3) obtain s1 where x: "run_step e x s0 = Some s1" and xs: "run e xs s1 = Some s"
    by (auto split: option.splits)
  have "submissions_in_flight s1 \<le> 1
       \<and> (0 < submissions_in_flight s1 \<longrightarrow> judgements_submitting (store s1))"
  proof (cases x)
    case (Invoke i)
    with x show ?thesis
      using invoke_keeps_guard_invariant [OF g Cons.prems(1) Cons.prems(2)] by blast
  next
    case (Settle n r)
    with x show ?thesis
      using settle_keeps_guard_invariant [OF g Cons.prems(1) Cons.prems(2)] by auto
  qed
  with Cons.IH [OF _ _ xs] show ?case by blast
qed

lemma guards_test_the_same_flag:
  "(submitBatchJudgements e judgements s = console_log ''Double called submitJudgements.'' s)
     = judgements_submitting (store s)"
  "(submitJudgement e judgement s = Inr (console_log ''Double called submitJudgement.'' s))
     = judgements_submitting (store s)"
proof -
  have "submitBatchJudgementsToBackend e judgements s
          \<noteq> console_log ''Double called submitJudgements.'' s"
  proof
    assume "submitBatchJudgementsToBackend e judgements s
              = console_log ''Double called submitJudgements.'' s"
    then have "trace (submitBatchJudgementsToBackend e judgements s)
              = trace (console_log ''Double called submitJudgements.'' s)"
      by (rule arg_cong)
    then show False by (simp add: submitBatchJudgementsToBackend_def Let_def)
  qed
  then show "(submitBatchJudgements e judgements s = console_log ''Double called submitJudgements.'' s)
     = judgements_submitting (store s)"
    by (auto simp: submitBatchJudgements_def)
  have "\<And>itemId cb. submitJudgementToBackend e itemId judgement cb s
          \<noteq> console_log ''Double called submitJudgement.'' s"
  proof
    fix itemId cb
    assume "submitJudgementToBackend e itemId judgement cb s
              = console_log ''Double called submitJudgement.'' s"
    then have "trace (submitJudgementToBackend e itemId judgement cb s)
              = trace (console_log ''Double called submitJudgement.'' s)"
      by (rule arg_cong)
    then show False by simp
  qed
  then show "(submitJudgement e judgement s = Inr (console_log ''Double called submitJudgement.'' s))
     = judgements_submitting (store s)"
    by (auto simp: submitJudgement_def Let_def split: sum.splits)
qed

text \<open>
  Claim C9. Both pipelines test the same flag of the store, \<open>judgements.submitting\<close>.
  With the guard in the store as the specification has it, in every session that starts
  with nothing in flight, whatever is asked and whatever settles in between: while a
  submission of either kind is in flight it is the only one, the flag is set, and a
  single-item submission and a batch submission both return at the guard.
\<close>

theorem submission_guard_is_shared:
  assumes "reduce e = guard_reducer"
    and "pending s0 = []"
    and "run e steps s0 = Some s"
    and "0 < submissions_in_flight s"
  shows "submissions_in_flight s = 1
       \<and> judgements_submitting (store s)
       \<and> submitJudgement e judgement s = Inr (console_log ''Double called submitJudgement.'' s)
       \<and> submitBatchJudgements e judgements s = console_log ''Double called submitJudgements.'' s"
proof -
  have "submissions_in_flight s0 \<le> 1"
    and "0 < submissions_in_flight s0 \<longrightarrow> judgements_submitting (store s0)"
    using assms(2) by (simp_all add: submissions_in_flight_def)
  from run_keeps_guard_invariant [OF assms(1) this assms(3)] assms(4)
  have one: "submissions_in_flight s = 1" and flag: "judgements_submitting (store s)"
    by auto
  from flag have "submitJudgement e judgement s = Inr (console_log ''Double called submitJudgement.'' s)"
    and "submitBatchJudgements e judgements s = console_log ''Double called submitJudgements.'' s"
    by (simp_all add: guards_test_the_same_flag)
  with one flag show ?thesis by (intro conjI)
qed

text \<open>
  The statement above for a single-item submission that is in flight while the
  statistics are fetched, and for a batch submission in flight.
\<close>

theorem submission_guard_is_shared_witness:
  "reduce example_env = guard_reducer
   \<and> pending (session False 0 ten_items None None) = []
   \<and> run example_env [Invoke (SubmitJudgement (Some (JStr ''cat''))), Invoke GetStats]
        (session False 0 ten_items None None)
       = Some (getStats example_env
                 (submitJudgementToBackend example_env (Some (JStr ''a'')) (Some (JStr ''cat''))
                    (SubmitJudgementCallback 0 ten_items) (session False 0 ten_items None None)))
   \<and> submitBatchJudgements example_env (Some (JArr []))
        (getStats example_env
           (submitJudgementToBackend example_env (Some (JStr ''a'')) (Some (JStr ''cat''))
              (SubmitJudgementCallback 0 ten_items) (session False 0 ten_items None None)))
       = console_log ''Double called submitJudgements.''
           (getStats example_env
              (submitJudgementToBackend example_env (Some (JStr ''a'')) (Some (JStr ''cat''))
                 (SubmitJudgementCallback 0 ten_items) (session False 0 ten_items None None)))
   \<and> run example_env [Invoke (SubmitBatchJudgements (Some (JArr [])))]
        (session False 0 ten_items None None)
       = Some (submitBatchJudgementsToBackend example_env (Some (JArr []))
                 (session False 0 ten_items None None))
   \<and> submitJudgement example_env (Some (JStr ''cat''))
        (submitBatchJudgementsToBackend example_env (Some (JArr []))
           (session False 0 ten_items None None))
       = Inr (console_log ''Double called submitJudgement.''
                (submitBatchJudgementsToBackend example_env (Some (JArr []))
                   (session False 0 ten_items None None)))"
proof -
  let ?s0 = "session False 0 ten_items None None"
  let ?s1 = "submitJudgementToBackend example_env (Some (JStr ''a'')) (Some (JStr ''cat''))
               (SubmitJudgementCallback 0 ten_items) ?s0"
  let ?b1 = "submitBatchJudgementsToBackend example_env (Some (JArr [])) ?s0"
  have g: "reduce example_env = guard_reducer"
    by (simp add: example_env_fields)
  have p: "pending ?s0 = []"
    by (simp add: session_fields)
  have r1: "run example_env [Invoke (SubmitJudgement (Some (JStr ''cat''))), Invoke GetStats] ?s0
              = Some (getStats example_env ?s1)"
    by (simp add: submit_on_ten_items)
  have f1: "0 < submissions_in_flight (getStats example_env ?s1)"
    by (simp add: fetch_thunks_keep_guard [OF g] backend_thunks_raise_guard [OF g])
  have r2: "run example_env [Invoke (SubmitBatchJudgements (Some (JArr [])))] ?s0 = Some ?b1"
    by (simp add: submitBatchJudgements_def session_fields)
  have f2: "0 < submissions_in_flight ?b1"
    by (simp add: backend_thunks_raise_guard [OF g])
  from submission_guard_is_shared [OF g p r1 f1] submission_guard_is_shared [OF g p r2 f2]
  show ?thesis using g p r1 r2 by blast
qed

section \<open>Single-item submission\<close>

text \<open>
  Claim C3, as amended. A single-item submission, with an object at \<open>currentIndex\<close>
  that has a \<open>path\<close> property, records the judgement and POSTs to \<open>/judgements\<close>
  the body \<open>{id, label}\<close> where \<open>id\<close> is the item's \<open>path\<close> and \<open>label\<close>
  the chosen label, each as \<^verbatim>\<open>JSON.stringify\<close> writes it.
\<close>

theorem submission_request_body:
  assumes "\<not> judgements_submitting (store s)"
    and "index (items_items (store s)) (items_currentIndex (store s)) = Some (JObj kvs)"
    and "map_of kvs ''path'' = Some p"
  shows "\<exists>s1. submitJudgement e (Some label) s = Inr s1
           \<and> events_since s s1 =
               [Dispatch (RECORD_JUDGEMENT (Some p) (Some label)),
                Fetch \<lparr>url = ''/judgements'', verb = POST,
                       headers = [(''Content-Type'', ''application/json'')],
                       body = Some (JObj [(''id'', json_stringify p),
                                          (''label'', json_stringify label)])\<rparr>]"
  using assms
  by (simp add: submitJudgement_def Let_def events_since_def post_json_def stringify_object_def
        List.map_filter_simps)

text \<open>The statement above at a concrete session: the items \<open>[{path: 'a'}]\<close>, the label \<open>'cat'\<close>.\<close>

theorem submission_request_body_witness:
  "\<not> judgements_submitting (store (session False 0 [JObj [(''path'', JStr ''a'')]] None None))
   \<and> index (items_items (store (session False 0 [JObj [(''path'', JStr ''a'')]] None None)))
        (items_currentIndex (store (session False 0 [JObj [(''path'', JStr ''a'')]] None None)))
       = Some (JObj [(''path'', JStr ''a'')])
   \<and> map_of [(''path'', JStr ''a'')] ''path'' = Some (JStr ''a'')
   \<and> (\<exists>s1. submitJudgement example_env (Some (JStr ''cat''))
               (session False 0 [JObj [(''path'', JStr ''a'')]] None None) = Inr s1
          \<and> trace s1 =
               [Dispatch (RECORD_JUDGEMENT (Some (JStr ''a'')) (Some (JStr ''cat''))),
                Fetch \<lparr>url = ''/judgements'', verb = POST,
                       headers = [(''Content-Type'', ''application/json'')],
                       body = Some (JObj [(''id'', JStr ''a''), (''label'', JStr ''cat'')])\<rparr>])"
  using submission_request_body
    [where s = "session False 0 [JObj [(''path'', JStr ''a'')]] None None" and e = example_env
       and kvs = "[(''path'', JStr ''a'')]" and p = "JStr ''a''" and label = "JStr ''cat''"]
  by (simp add: session_fields index_def events_since_def)

lemma non_finite_path_is_sent_as_null:
  "map_sum id trace
     (submitJudgement example_env (Some (JStr ''cat''))
        (session False 0 [JObj [(''path'', JNum ''Infinity'')]] None None))
   = Inr [Dispatch (RECORD_JUDGEMENT (Some (JNum ''Infinity'')) (Some (JStr ''cat''))),
          Fetch \<lparr>url = ''/judgements'', verb = POST,
                 headers = [(''Content-Type'', ''application/json'')],
                 body = Some (JObj [(''id'', JNull), (''label'', JStr ''cat'')])\<rparr>]"
  by (simp add: submitJudgement_def Let_def session_fields index_def post_json_def
        stringify_object_def List.map_filter_simps)

text \<open>
  With the items \<open>[{id: 'a'}]\<close> the item has no \<open>path\<close>: the recorded item id is
  \<open>undefined\<close> and the body sent is \<open>{label: 'cat'}\<close>, with no \<open>id\<close>.
\<close>

theorem submission_request_body_counterexample:
  "index (items_items (store (session False 0 [JObj [(''id'', JStr ''a'')]] None None)))
        (items_currentIndex (store (session False 0 [JObj [(''id'', JStr ''a'')]] None None)))
       = Some (JObj [(''id'', JStr ''a'')])
   \<and> map_sum id trace
       (submitJudgement example_env (Some (JStr ''cat''))
          (session False 0 [JObj [(''id'', JStr ''a'')]] None None))
     = Inr [Dispatch (RECORD_JUDGEMENT None (Some (JStr ''cat''))),
            Fetch \<lparr>url = ''/judgements'', verb = POST,
                   headers = [(''Content-Type'', ''application/json'')],
                   body = Some (JObj [(''label'', JStr ''cat'')])\<rparr>]
   \<and> JObj [(''label'', JStr ''cat'')] \<noteq> JObj [(''id'', JStr ''a''), (''label'', JStr ''cat'')]"
  by (simp add: submitJudgement_def Let_def session_fields index_def post_json_def
        stringify_object_def List.map_filter_simps)

text \<open>
  Claim C2, as amended. After an accepted single-item submission the callback fetches
  the next page of items exactly when \<open>currentIndex + 4\<close> is strictly greater than
  the number of items, both values as read when the submission began. With ten items
  the fetch happens at index 7 and does not happen at index 6.
\<close>

theorem read_ahead_trigger:
  assumes "\<not> judgements_submitting (store s)"
    and "submitJudgement e judgement s = Inr s1"
    and "accepted e r"
  shows "\<exists>s2. settle e (length (pending s)) r s1 = Some s2
           \<and> (Fetch (get_request ''/batch?'') \<in> set (events_since s1 s2)
                \<longleftrightarrow> items_currentIndex (store s) + 4 > length (items_items (store s)))
           \<and> (Dispatch FETCH_ITEMS \<in> set (events_since s1 s2)
                \<longleftrightarrow> items_currentIndex (store s) + 4 > length (items_items (store s)))"
proof -
  from accepted_submission_events [OF assms] obtain s2 itemId where
    st: "settle e (length (pending s)) r s1 = Some s2" and
    ev: "events_since s1 s2 =
               [Dispatch (RECORD_JUDGEMENT_SUCCESS itemId)]
               @ (if items_currentIndex (store s) + 4 > length (items_items (store s))
                  then [Dispatch FETCH_ITEMS, Fetch (get_request ''/batch?'')] else [])
               @ [Dispatch FETCH_STATS, Fetch (get_request ''/history''), Dispatch SHOW_NEXT_ITEM]"
    by blast
  have "Fetch (get_request ''/batch?'') \<in> set (events_since s1 s2)
          \<longleftrightarrow> items_currentIndex (store s) + 4 > length (items_items (store s))"
    by (simp add: ev get_request_def)
  moreover have "Dispatch FETCH_ITEMS \<in> set (events_since s1 s2)
          \<longleftrightarrow> items_currentIndex (store s) + 4 > length (items_items (store s))"
    by (simp add: ev)
  ultimately show ?thesis using st by blast
qed

text \<open>The statement above at a concrete session.\<close>

theorem read_ahead_trigger_witness:
  "\<not> judgements_submitting (store (session False 7 ten_items None None))
   \<and> submitJudgement example_env (Some (JStr ''cat'')) (session False 7 ten_items None None)
       = Inr (submitJudgementToBackend example_env (Some (JStr ''a'')) (Some (JStr ''cat''))
                (SubmitJudgementCallback 7 ten_items) (session False 7 ten_items None None))
   \<and> accepted example_env (ok_response (JObj []))
   \<and> (\<exists>s2. settle example_env 0 (ok_response (JObj []))
              (submitJudgementToBackend example_env (Some (JStr ''a'')) (Some (JStr ''cat''))
                (SubmitJudgementCallback 7 ten_items) (session False 7 ten_items None None)) = Some s2
          \<and> Fetch (get_request ''/batch?'') \<in> set (events_since
              (submitJudgementToBackend example_env (Some (JStr ''a'')) (Some (JStr ''cat''))
                (SubmitJudgementCallback 7 ten_items) (session False 7 ten_items None None)) s2))"
proof -
  have h1: "\<not> judgements_submitting (store (session False 7 ten_items None None))"
    by (simp add: session_fields)
  have h2: "submitJudgement example_env (Some (JStr ''cat'')) (session False 7 ten_items None None)
       = Inr (submitJudgementToBackend example_env (Some (JStr ''a'')) (Some (JStr ''cat''))
                (SubmitJudgementCallback 7 ten_items) (session False 7 ten_items None None))"
    by (simp add: submit_on_ten_items)
  have h3: "accepted example_env (ok_response (JObj []))"
    by (rule accepted_empty_object)
  from read_ahead_trigger [OF h1 h2 h3] obtain s2 where
    "settle example_env 0 (ok_response (JObj []))
              (submitJudgementToBackend example_env (Some (JStr ''a'')) (Some (JStr ''cat''))
                (SubmitJudgementCallback 7 ten_items) (session False 7 ten_items None None)) = Some s2"
    and "Fetch (get_request ''/batch?'') \<in> set (events_since
              (submitJudgementToBackend example_env (Some (JStr ''a'')) (Some (JStr ''cat''))
                (SubmitJudgementCallback 7 ten_items) (session False 7 ten_items None None)) s2)"
    by (auto simp: session_fields ten_items_facts)
  with h1 h2 h3 show ?thesis by blast
qed

text \<open>
  With ten items and \<open>currentIndex = 6\<close>, where \<open>6 + 4\<close> is at least the length, an
  accepted submission fetches the statistics only: the claim as first stated fails.
\<close>

theorem read_ahead_trigger_counterexample:
  "items_currentIndex (store (session False 6 ten_items None None)) + 4
     \<ge> length (items_items (store (session False 6 ten_items None None)))
   \<and> submitJudgement example_env (Some (JStr ''cat'')) (session False 6 ten_items None None)
       = Inr (submitJudgementToBackend example_env (Some (JStr ''a'')) (Some (JStr ''cat''))
                (SubmitJudgementCallback 6 ten_items) (session False 6 ten_items None None))
   \<and> map_option trace
       (settle example_env 0 (ok_response (JObj []))
          (submitJudgementToBackend example_env (Some (JStr ''a'')) (Some (JStr ''cat''))
             (SubmitJudgementCallback 6 ten_items) (session False 6 ten_items None None)))
     = Some [Dispatch (RECORD_JUDGEMENT (Some (JStr ''a'')) (Some (JStr ''cat''))),
             Fetch (post_json ''/judgements'' (JObj [(''id'', JStr ''a''), (''label'', JStr ''cat'')])),
             Dispatch (RECORD_JUDGEMENT_SUCCESS (Some (JStr ''a''))),
             Dispatch FETCH_STATS,
             Fetch (get_request ''/history''),
             Dispatch SHOW_NEXT_ITEM]"
proof -
  let ?s1 = "submitJudgementToBackend example_env (Some (JStr ''a'')) (Some (JStr ''cat''))
             (SubmitJudgementCallback 6 ten_items) (session False 6 ten_items None None)"
  have p: "pending ?s1 = [] @ [SubmitJudgementThen (Some (JStr ''a'')) (SubmitJudgementCallback 6 ten_items)]"
    by (simp add: session_fields)
  have st: "settle example_env 0 (ok_response (JObj [])) ?s1
     = Some (settled example_env (SubmitJudgementThen (Some (JStr ''a'')) (SubmitJudgementCallback 6 ten_items))
               (ok_response (JObj [])) (?s1\<lparr>pending := []\<rparr>))"
    using settle_last [OF p, of example_env "ok_response (JObj [])"] by (simp del: settled.simps)
  have "map_option trace (settle example_env 0 (ok_response (JObj [])) ?s1)
     = Some [Dispatch (RECORD_JUDGEMENT (Some (JStr ''a'')) (Some (JStr ''cat''))),
             Fetch (post_json ''/judgements'' (JObj [(''id'', JStr ''a''), (''label'', JStr ''cat'')])),
             Dispatch (RECORD_JUDGEMENT_SUCCESS (Some (JStr ''a''))),
             Dispatch FETCH_STATS,
             Fetch (get_request ''/history''),
             Dispatch SHOW_NEXT_ITEM]"
    unfolding st settled_judgement_accepted [OF accepted_empty_object]
    by (simp add: run_callback_trace recordJudgementSuccess_def session_fields ten_items_facts
          stringify_object_def List.map_filter_simps del: run_callback.simps)
  then show ?thesis
    by (simp add: session_fields ten_items_facts submit_on_ten_items)
qed

text \<open>
  Claim C10. The requests that an accepted single-item submission issues are the
  read-ahead fetch, when due, and the statistics refresh. The read-ahead fetch is a GET
  of \<open>/batch?\<close> with nothing after the question mark, whatever the trace holds of
  earlier page fetches and their parameters.
\<close>

theorem read_ahead_query_is_empty:
  assumes "\<not> judgements_submitting (store s)"
    and "submitJudgement e judgement s = Inr s1"
    and "accepted e r"
  shows "\<exists>s2. settle e (length (pending s)) r s1 = Some s2
           \<and> List.map_filter fetch_of (events_since s1 s2) =
               (if items_currentIndex (store s) + 4 > length (items_items (store s))
                then [\<lparr>url = ''/batch?'', verb = GET, headers = [], body = None\<rparr>] else [])
               @ [\<lparr>url = ''/history'', verb = GET, headers = [], body = None\<rparr>]"
proof -
  from accepted_submission_events [OF assms] obtain s2 itemId where
    st: "settle e (length (pending s)) r s1 = Some s2" and
    ev: "events_since s1 s2 =
               [Dispatch (RECORD_JUDGEMENT_SUCCESS itemId)]
               @ (if items_currentIndex (store s) + 4 > length (items_items (store s))
                  then [Dispatch FETCH_ITEMS, Fetch (get_request ''/batch?'')] else [])
               @ [Dispatch FETCH_STATS, Fetch (get_request ''/history''), Dispatch SHOW_NEXT_ITEM]"
    by blast
  have "List.map_filter fetch_of (events_since s1 s2) =
               (if items_currentIndex (store s) + 4 > length (items_items (store s))
                then [\<lparr>url = ''/batch?'', verb = GET, headers = [], body = None\<rparr>] else [])
               @ [\<lparr>url = ''/history'', verb = GET, headers = [], body = None\<rparr>]"
    by (simp add: ev get_request_def List.map_filter_simps)
  then show ?thesis using st by blast
qed

text \<open>The statement above at a concrete session.\<close>

theorem read_ahead_query_is_empty_witness:
  "trace (getNextBatch example_env (Some [(''sample_size'', ''5'')]) (session False 7 ten_items None None))
     = [Dispatch FETCH_ITEMS, Fetch \<lparr>url = ''/batch?sample_size=5'', verb = GET, headers = [], body = None\<rparr>]
   \<and> \<not> judgements_submitting
         (store (getNextBatch example_env (Some [(''sample_size'', ''5'')]) (session False 7 ten_items None None)))
   \<and> submitJudgement example_env (Some (JStr ''cat''))
        (getNextBatch example_env (Some [(''sample_size'', ''5'')]) (session False 7 ten_items None None))
       = Inr (submitJudgementToBackend example_env (Some (JStr ''a'')) (Some (JStr ''cat''))
                (SubmitJudgementCallback 7 ten_items)
                (getNextBatch example_env (Some [(''sample_size'', ''5'')]) (session False 7 ten_items None None)))
   \<and> accepted example_env (ok_response (JObj []))
   \<and> (\<exists>s2. settle example_env 1 (ok_response (JObj []))
              (submitJudgementToBackend example_env (Some (JStr ''a'')) (Some (JStr ''cat''))
                (SubmitJudgementCallback 7 ten_items)
                (getNextBatch example_env (Some [(''sample_size'', ''5'')]) (session False 7 ten_items None None)))
              = Some s2
          \<and> List.map_filter fetch_of
              (events_since
                (submitJudgementToBackend example_env (Some (JStr ''a'')) (Some (JStr ''cat''))
                  (SubmitJudgementCallback 7 ten_items)
                  (getNextBatch example_env (Some [(''sample_size'', ''5'')]) (session False 7 ten_items None None)))
                s2)
             = [\<lparr>url = ''/batch?'', verb = GET, headers = [], body = None\<rparr>,
                \<lparr>url = ''/history'', verb = GET, headers = [], body = None\<rparr>])"
proof -
  let ?s = "getNextBatch example_env (Some [(''sample_size'', ''5'')]) (session False 7 ten_items None None)"
  have st: "store ?s = store (session False 7 ten_items None None)"
    by (simp add: getNextBatch_def Let_def fetchItems_def example_env_fields)
  have h0: "trace ?s = [Dispatch FETCH_ITEMS,
              Fetch \<lparr>url = ''/batch?sample_size=5'', verb = GET, headers = [], body = None\<rparr>]"
    by (simp add: session_fields URLSearchParams_toString_def urlencode_def urlencode_byte_def
          get_request_def)
  have h1: "\<not> judgements_submitting (store ?s)"
    by (simp add: st session_fields)
  have h2: "submitJudgement example_env (Some (JStr ''cat'')) ?s
       = Inr (submitJudgementToBackend example_env (Some (JStr ''a'')) (Some (JStr ''cat''))
                (SubmitJudgementCallback 7 ten_items) ?s)"
    using submitJudgement_on_object [of ?s "[(''path'', JStr ''a'')]" example_env "Some (JStr ''cat'')"]
    by (simp add: st session_fields ten_items_facts)
  have h3: "accepted example_env (ok_response (JObj []))"
    by (rule accepted_empty_object)
  from read_ahead_query_is_empty [OF h1 h2 h3] obtain s2 where
    "settle example_env 1 (ok_response (JObj []))
       (submitJudgementToBackend example_env (Some (JStr ''a'')) (Some (JStr ''cat''))
          (SubmitJudgementCallback 7 ten_items) ?s) = Some s2"
    and "List.map_filter fetch_of
           (events_since
              (submitJudgementToBackend example_env (Some (JStr ''a'')) (Some (JStr ''cat''))
                 (SubmitJudgementCallback 7 ten_items) ?s) s2)
         = [\<lparr>url = ''/batch?'', verb = GET, headers = [], body = None\<rparr>,
            \<lparr>url = ''/history'', verb = GET, headers = [], body = None\<rparr>]"
    by (auto simp: st session_fields ten_items_facts)
  with h0 h1 h2 h3 show ?thesis by blast
qed

text \<open>
  Claim C6. A single-item submission fails in one of two ways: the response is not
  \<open>ok\<close> (the message is then its status text), or it is \<open>ok\<close> and its payload is an
  object with an \<open>error\<close> field (the message is then what \<^verbatim>\<open>throw new Error\<close> of
  that field carries). In both, the settling of the request adds exactly one event, the
  dispatch of \<open>RECORD_JUDGEMENT_FAILURE\<close> for the item with that message. No request
  is issued, so neither the next page nor the statistics are fetched;
  \<open>SHOW_NEXT_ITEM\<close> is not dispatched; the store has changed by the failure action
  alone.
\<close>

theorem failed_submission_effects:
  assumes idle: "\<not> judgements_submitting (store s)"
    and begun: "submitJudgement e judgement s = Inr s1"
    and failed: "(\<not> ok resp \<and> m = statusText resp)
               \<or> (ok resp \<and> json_result resp = Inr (JObj kvs) \<and> map_of kvs ''error'' = Some v
                    \<and> m = thrown_message e (Some v))"
  shows "\<exists>s2 itemId. settle e (length (pending s)) (Resolved resp) s1 = Some s2
           \<and> get_prop (read_property_msg e)
                (index (items_items (store s)) (items_currentIndex (store s))) ''path'' = Inr itemId
           \<and> events_since s1 s2 = [Dispatch (RECORD_JUDGEMENT_FAILURE itemId m)]
           \<and> List.map_filter fetch_of (events_since s1 s2) = []
           \<and> Dispatch FETCH_ITEMS \<notin> set (events_since s1 s2)
           \<and> Dispatch FETCH_STATS \<notin> set (events_since s1 s2)
           \<and> Dispatch SHOW_NEXT_ITEM \<notin> set (events_since s1 s2)
           \<and> pending s2 = pending s
           \<and> store s2 = reduce e (store s1) (RECORD_JUDGEMENT_FAILURE itemId m)"
proof -
  let ?cb = "SubmitJudgementCallback (items_currentIndex (store s)) (items_items (store s))"
  from submitJudgement_begins [OF idle begun] obtain itemId where
    path: "get_prop (read_property_msg e)
             (index (items_items (store s)) (items_currentIndex (store s))) ''path'' = Inr itemId" and
    s1: "s1 = submitJudgementToBackend e itemId judgement ?cb s" by blast
  have p: "pending s1 = pending s @ [SubmitJudgementThen itemId ?cb]"
    by (simp add: s1)
  define s2 where "s2 = settled e (SubmitJudgementThen itemId ?cb) (Resolved resp) (s1\<lparr>pending := pending s\<rparr>)"
  have st: "settle e (length (pending s)) (Resolved resp) s1 = Some s2"
    unfolding s2_def by (rule settle_last [OF p])
  have eq: "s2 = dispatch e (RECORD_JUDGEMENT_FAILURE itemId m) (s1\<lparr>pending := pending s\<rparr>)"
    using failed
  proof
    assume "\<not> ok resp \<and> m = statusText resp"
    then have "\<not> ok resp" and "m = statusText resp" by simp_all
    then show ?thesis
      unfolding s2_def by (simp add: settled_judgement_transport del: settled.simps)
  next
    assume "ok resp \<and> json_result resp = Inr (JObj kvs) \<and> map_of kvs ''error'' = Some v
              \<and> m = thrown_message e (Some v)"
    then have "ok resp" and "json_result resp = Inr (JObj kvs)" and "map_of kvs ''error'' = Some v"
      and "m = thrown_message e (Some v)" by simp_all
    then show ?thesis
      unfolding s2_def by (simp add: settled_judgement_error_field del: settled.simps)
  qed
  have ev: "events_since s1 s2 = [Dispatch (RECORD_JUDGEMENT_FAILURE itemId m)]"
    by (rule events_since_append) (simp add: eq)
  have "List.map_filter fetch_of (events_since s1 s2) = []"
    by (simp add: ev List.map_filter_simps)
  moreover have "Dispatch FETCH_ITEMS \<notin> set (events_since s1 s2)"
    and "Dispatch FETCH_STATS \<notin> set (events_since s1 s2)"
    and "Dispatch SHOW_NEXT_ITEM \<notin> set (events_since s1 s2)"
    by (simp_all add: ev)
  moreover have "pending s2 = pending s" by (simp add: eq)
  moreover have "store s2 = reduce e (store s1) (RECORD_JUDGEMENT_FAILURE itemId m)" by (simp add: eq)
  ultimately show ?thesis using st path ev by blast
qed

text \<open>
  The statement above at a concrete session, once for a \<open>Not Found\<close> response and
  once for an \<open>ok\<close> response \<open>{error: 'boom'}\<close>.
\<close>

theorem failed_submission_effects_witness:
  "\<not> judgements_submitting (store (session False 0 ten_items None None))
   \<and> submitJudgement example_env (Some (JStr ''cat'')) (session False 0 ten_items None None)
       = Inr (submitJudgementToBackend example_env (Some (JStr ''a'')) (Some (JStr ''cat''))
                (SubmitJudgementCallback 0 ten_items) (session False 0 ten_items None None))
   \<and> \<not> ok \<lparr>ok = False, statusText = ''Not Found'', json_result = Inl ''Unexpected token''\<rparr>
   \<and> (\<exists>s2. settle example_env 0
              (Resolved \<lparr>ok = False, statusText = ''Not Found'', json_result = Inl ''Unexpected token''\<rparr>)
              (submitJudgementToBackend example_env (Some (JStr ''a'')) (Some (JStr ''cat''))
                (SubmitJudgementCallback 0 ten_items) (session False 0 ten_items None None)) = Some s2
          \<and> events_since
              (submitJudgementToBackend example_env (Some (JStr ''a'')) (Some (JStr ''cat''))
                (SubmitJudgementCallback 0 ten_items) (session False 0 ten_items None None)) s2
             = [Dispatch (RECORD_JUDGEMENT_FAILURE (Some (JStr ''a'')) ''Not Found'')]
          \<and> pending s2 = [])
   \<and> ok \<lparr>ok = True, statusText = ''OK'', json_result = Inr (JObj [(''error'', JStr ''boom'')])\<rparr>
   \<and> (\<exists>s2. settle example_env 0
              (Resolved \<lparr>ok = True, statusText = ''OK'', json_result = Inr (JObj [(''error'', JStr ''boom'')])\<rparr>)
              (submitJudgementToBackend example_env (Some (JStr ''a'')) (Some (JStr ''cat''))
                (SubmitJudgementCallback 0 ten_items) (session False 0 ten_items None None)) = Some s2
          \<and> events_since
              (submitJudgementToBackend example_env (Some (JStr ''a'')) (Some (JStr ''cat''))
                (SubmitJudgementCallback 0 ten_items) (session False 0 ten_items None None)) s2
             = [Dispatch (RECORD_JUDGEMENT_FAILURE (Some (JStr ''a'')) ''boom'')]
          \<and> pending s2 = [])"
proof -
  let ?s = "session False 0 ten_items None None"
  let ?s1 = "submitJudgementToBackend example_env (Some (JStr ''a'')) (Some (JStr ''cat''))
                (SubmitJudgementCallback 0 ten_items) ?s"
  let ?nf = "\<lparr>ok = False, statusText = ''Not Found'', json_result = Inl ''Unexpected token''\<rparr>"
  let ?boom = "\<lparr>ok = True, statusText = ''OK'', json_result = Inr (JObj [(''error'', JStr ''boom'')])\<rparr>"
  have h1: "\<not> judgements_submitting (store ?s)"
    by (simp add: session_fields)
  have h2: "submitJudgement example_env (Some (JStr ''cat'')) ?s = Inr ?s1"
    by (simp add: submit_on_ten_items)
  have path: "get_prop (read_property_msg example_env)
                (index (items_items (store ?s)) (items_currentIndex (store ?s))) ''path''
              = Inr (Some (JStr ''a''))"
    by (simp add: session_fields ten_items_facts)
  have n: "\<not> ok ?nf" and b: "ok ?boom" by simp_all
  have f1: "(\<not> ok ?nf \<and> ''Not Found'' = statusText ?nf)
            \<or> (ok ?nf \<and> json_result ?nf = Inr (JObj []) \<and> map_of [] ''error'' = Some JNull
                 \<and> ''Not Found'' = thrown_message example_env (Some JNull))"
    by simp
  have f2: "(\<not> ok ?boom \<and> ''boom'' = statusText ?boom)
            \<or> (ok ?boom \<and> json_result ?boom = Inr (JObj [(''error'', JStr ''boom'')])
                 \<and> map_of [(''error'', JStr ''boom'')] ''error'' = Some (JStr ''boom'')
                 \<and> ''boom'' = thrown_message example_env (Some (JStr ''boom'')))"
    by (simp add: thrown_message_string)
  from failed_submission_effects [OF h1 h2 f1] path obtain s2 where
    "settle example_env 0 (Resolved ?nf) ?s1 = Some s2"
    and "events_since ?s1 s2 = [Dispatch (RECORD_JUDGEMENT_FAILURE (Some (JStr ''a'')) ''Not Found'')]"
    and "pending s2 = []"
    by (auto simp: session_fields)
  moreover from failed_submission_effects [OF h1 h2 f2] path obtain s2' where
    "settle example_env 0 (Resolved ?boom) ?s1 = Some s2'"
    and "events_since ?s1 s2' = [Dispatch (RECORD_JUDGEMENT_FAILURE (Some (JStr ''a'')) ''boom'')]"
    and "pending s2' = []"
    by (auto simp: session_fields)
  ultimately show ?thesis using h1 h2 n b by blast
qed

section \<open>Failures of the remote calls\<close>

text \<open>
  Claim C4, as amended. For a response that is \<open>ok\<close> and whose payload is an object
  with an \<open>error\<close> field: the three POST chains (single judgement, batch of
  judgements, predict) dispatch their failure action with the message that
  \<^verbatim>\<open>throw new Error\<close> of the field carries, which is the field itself when it is a
  string; the four GET chains (task, statistics, item page, batch item page) do not
  look at the field and dispatch what they dispatch for any other payload.
\<close>

theorem error_field_on_post_calls:
  assumes "ok resp" and "json_result resp = Inr (JObj kvs)" and "map_of kvs ''error'' = Some v"
  shows "settled e (SubmitJudgementThen itemId cb) (Resolved resp) s
           = dispatch e (RECORD_JUDGEMENT_FAILURE itemId (thrown_message e (Some v))) s
       \<and> settled e (SubmitBatchJudgementsThen judgements) (Resolved resp) s
           = dispatch e (RECORD_JUDGEMENTS_FAILURE judgements (thrown_message e (Some v))) s
       \<and> settled e SubmitDataThen (Resolved resp) s
           = dispatch e (SUBMIT_DATA_FAILURE (thrown_message e (Some v))) s
       \<and> (v = JStr msg \<longrightarrow> thrown_message e (Some v) = msg)
       \<and> settled e GetTaskThen (Resolved resp) s = dispatch e (FETCH_TASK_SUCCESS (JObj kvs)) s
       \<and> settled e GetStatsThen (Resolved resp) s = dispatch e (FETCH_STATS_SUCCESS (JObj kvs)) s
       \<and> settled e GetNextBatchThen (Resolved resp) s = dispatch e (FETCH_ITEMS_SUCCESS (JObj kvs)) s
       \<and> settled e FetchNextBatchItemsBatchThen (Resolved resp) s
           = dispatch e (if truthy (map_of kvs ''done'') then BATCH_LABELLING_COMPLETE
                         else FETCH_BATCH_ITEMS_SUCCESS (JObj kvs)) s"
proof -
  have r: "response_json (Resolved resp) = Inr (JObj kvs)"
    using assms by (simp add: response_json_def)
  have single: "settled e (SubmitJudgementThen itemId cb) (Resolved resp) s
           = dispatch e (RECORD_JUDGEMENT_FAILURE itemId (thrown_message e (Some v))) s"
    using assms by (simp add: r recordJudgementFailure_def)
  have batch: "settled e (SubmitBatchJudgementsThen judgements) (Resolved resp) s
           = dispatch e (RECORD_JUDGEMENTS_FAILURE judgements (thrown_message e (Some v))) s"
    using assms by (simp add: r recordJudgementsFailure_def)
  have score: "settled e SubmitDataThen (Resolved resp) s
           = dispatch e (SUBMIT_DATA_FAILURE (thrown_message e (Some v))) s"
    using assms by (simp add: r submitDataFailure_def)
  have str: "v = JStr msg \<longrightarrow> thrown_message e (Some v) = msg"
    by (simp add: thrown_message_string)
  have task: "settled e GetTaskThen (Resolved resp) s = dispatch e (FETCH_TASK_SUCCESS (JObj kvs)) s"
    by (simp add: r fetchTaskSuccess_def)
  have stats: "settled e GetStatsThen (Resolved resp) s = dispatch e (FETCH_STATS_SUCCESS (JObj kvs)) s"
    by (simp add: r fetchStatsSuccess_def)
  have page: "settled e GetNextBatchThen (Resolved resp) s = dispatch e (FETCH_ITEMS_SUCCESS (JObj kvs)) s"
    by (simp add: r fetchItemsSuccess_def)
  have batch_page: "settled e FetchNextBatchItemsBatchThen (Resolved resp) s
           = dispatch e (if truthy (map_of kvs ''done'') then BATCH_LABELLING_COMPLETE
                         else FETCH_BATCH_ITEMS_SUCCESS (JObj kvs)) s"
    by (simp add: r batchLabellingComplete_def fetchBatchItemsSuccess_def)
  show ?thesis
    by (intro conjI single batch score str task stats page batch_page)
qed

text \<open>
  The statement above for the payload \<open>{error: 'boom'}\<close>, and for a payload whose
  \<open>error\<close> field is an object with a \<open>toString\<close> property of its own, where the
  message is that of the TypeError.
\<close>

theorem error_field_on_post_calls_witness:
  "ok \<lparr>ok = True, statusText = ''OK'', json_result = Inr (JObj [(''error'', JStr ''boom'')])\<rparr>
   \<and> map_of [(''error'', JStr ''boom'')] ''error'' = Some (JStr ''boom'')
   \<and> settled example_env (SubmitJudgementThen (Some (JStr ''a'')) (SubmitJudgementCallback 0 []))
       (ok_response (JObj [(''error'', JStr ''boom'')])) (session True 0 [] None None)
     = dispatch example_env (RECORD_JUDGEMENT_FAILURE (Some (JStr ''a'')) ''boom'') (session True 0 [] None None)
   \<and> settled example_env (SubmitBatchJudgementsThen (Some (JArr [])))
       (ok_response (JObj [(''error'', JStr ''boom'')])) (session True 0 [] None None)
     = dispatch example_env (RECORD_JUDGEMENTS_FAILURE (Some (JArr [])) ''boom'') (session True 0 [] None None)
   \<and> settled example_env SubmitDataThen
       (ok_response (JObj [(''error'', JStr ''boom'')])) (session True 0 [] None None)
     = dispatch example_env (SUBMIT_DATA_FAILURE ''boom'') (session True 0 [] None None)
   \<and> settled example_env SubmitDataThen
       (ok_response (JObj [(''error'', JObj [(''toString'', JNum ''1'')])])) (session True 0 [] None None)
     = dispatch example_env (SUBMIT_DATA_FAILURE ''Cannot convert object to primitive value'')
         (session True 0 [] None None)"
  using error_field_on_post_calls
    [where resp = "\<lparr>ok = True, statusText = ''OK'', json_result = Inr (JObj [(''error'', JStr ''boom'')])\<rparr>"
       and kvs = "[(''error'', JStr ''boom'')]" and v = "JStr ''boom''" and e = example_env
       and s = "session True 0 [] None None" and itemId = "Some (JStr ''a'')"
       and cb = "SubmitJudgementCallback 0 []" and judgements = "Some (JArr [])"]
    error_field_on_post_calls
    [where resp = "\<lparr>ok = True, statusText = ''OK'',
                     json_result = Inr (JObj [(''error'', JObj [(''toString'', JNum ''1'')])])\<rparr>"
       and kvs = "[(''error'', JObj [(''toString'', JNum ''1'')])]"
       and v = "JObj [(''toString'', JNum ''1'')]" and e = example_env
       and s = "session True 0 [] None None"]
  by (simp add: ok_response_def thrown_message_string thrown_message_own_toString
        example_env_fields del: settled.simps)

text \<open>
  An \<open>ok\<close> response \<open>{error: 'boom'}\<close> to the GET of \<open>/task\<close> ends in the success
  action, carrying the payload.
\<close>

theorem error_field_counterexample:
  "ok \<lparr>ok = True, statusText = ''OK'', json_result = Inr (JObj [(''error'', JStr ''boom'')])\<rparr>
   \<and> map_option trace
       (settle example_env 0
          (Resolved \<lparr>ok = True, statusText = ''OK'', json_result = Inr (JObj [(''error'', JStr ''boom'')])\<rparr>)
          (getTask example_env (session False 0 [] None None)))
     = Some [Dispatch FETCH_TASK, Fetch (get_request ''/task''),
             Dispatch (FETCH_TASK_SUCCESS (JObj [(''error'', JStr ''boom'')]))]"
  by (simp add: settle_def session_fields response_json_def fetchTaskSuccess_def)

text \<open>
  Claim C7, as amended. For a response that is not \<open>ok\<close>, the failure action of the
  three POST chains carries the status text itself, and the failure action of the four
  GET chains carries the status text after a prefix that is fixed for the call.
\<close>

theorem transport_failure_message:
  assumes "\<not> ok resp"
  shows "settled e (SubmitJudgementThen itemId cb) (Resolved resp) s
           = dispatch e (RECORD_JUDGEMENT_FAILURE itemId (statusText resp)) s
       \<and> settled e (SubmitBatchJudgementsThen judgements) (Resolved resp) s
           = dispatch e (RECORD_JUDGEMENTS_FAILURE judgements (statusText resp)) s
       \<and> settled e SubmitDataThen (Resolved resp) s
           = dispatch e (SUBMIT_DATA_FAILURE (statusText resp)) s
       \<and> settled e GetNextBatchThen (Resolved resp) s
           = dispatch e (FETCH_ITEMS_FAILURE (''Error fetching batch items: '' @ statusText resp)) s
       \<and> settled e GetStatsThen (Resolved resp) s
           = dispatch e (FETCH_STATS_FAILURE (''Error fetching stats: '' @ statusText resp)) s
       \<and> settled e FetchNextBatchItemsBatchThen (Resolved resp) s
           = dispatch e (FETCH_BATCH_ITEMS_FAILURE (''Error fetching batch items: '' @ statusText resp)) s
       \<and> settled e GetTaskThen (Resolved resp) s
           = dispatch e (FETCH_TASK_FAILURE (''Error fetching stats: '' @ statusText resp)) s"
proof -
  have r: "response_json (Resolved resp) = Inl (statusText resp)"
    using assms by (simp add: response_json_def)
  have single: "settled e (SubmitJudgementThen itemId cb) (Resolved resp) s
           = dispatch e (RECORD_JUDGEMENT_FAILURE itemId (statusText resp)) s"
    by (simp add: r recordJudgementFailure_def)
  have batch: "settled e (SubmitBatchJudgementsThen judgements) (Resolved resp) s
           = dispatch e (RECORD_JUDGEMENTS_FAILURE judgements (statusText resp)) s"
    by (simp add: r recordJudgementsFailure_def)
  have score: "settled e SubmitDataThen (Resolved resp) s
           = dispatch e (SUBMIT_DATA_FAILURE (statusText resp)) s"
    by (simp add: r submitDataFailure_def)
  have page: "settled e GetNextBatchThen (Resolved resp) s
           = dispatch e (FETCH_ITEMS_FAILURE (''Error fetching batch items: '' @ statusText resp)) s"
    by (simp add: r fetchItemsFailure_def)
  have stats: "settled e GetStatsThen (Resolved resp) s
           = dispatch e (FETCH_STATS_FAILURE (''Error fetching stats: '' @ statusText resp)) s"
    by (simp add: r fetchStatsFailure_def)
  have batch_page: "settled e FetchNextBatchItemsBatchThen (Resolved resp) s
           = dispatch e (FETCH_BATCH_ITEMS_FAILURE (''Error fetching batch items: '' @ statusText resp)) s"
    by (simp add: r fetchBatchItemsFailure_def)
  have task: "settled e GetTaskThen (Resolved resp) s
           = dispatch e (FETCH_TASK_FAILURE (''Error fetching stats: '' @ statusText resp)) s"
    by (simp add: r fetchTaskFailure_def)
  show ?thesis
    by (intro conjI single batch score page stats batch_page task)
qed

text \<open>The statement above for a \<open>Not Found\<close> response, on a submission and on the four fetches.\<close>

theorem transport_failure_message_witness:
  "\<not> ok \<lparr>ok = False, statusText = ''Not Found'', json_result = Inl ''Unexpected token''\<rparr>
   \<and> settled example_env (SubmitJudgementThen (Some (JStr ''a'')) (SubmitJudgementCallback 0 []))
       (status_response ''Not Found'') (session True 0 [] None None)
     = dispatch example_env (RECORD_JUDGEMENT_FAILURE (Some (JStr ''a'')) ''Not Found'') (session True 0 [] None None)
   \<and> settled example_env GetNextBatchThen (status_response ''Not Found'') (session True 0 [] None None)
     = dispatch example_env (FETCH_ITEMS_FAILURE ''Error fetching batch items: Not Found'') (session True 0 [] None None)
   \<and> settled example_env GetStatsThen (status_response ''Not Found'') (session True 0 [] None None)
     = dispatch example_env (FETCH_STATS_FAILURE ''Error fetching stats: Not Found'') (session True 0 [] None None)
   \<and> settled example_env FetchNextBatchItemsBatchThen (status_response ''Not Found'') (session True 0 [] None None)
     = dispatch example_env (FETCH_BATCH_ITEMS_FAILURE ''Error fetching batch items: Not Found'')
         (session True 0 [] None None)
   \<and> settled example_env GetTaskThen (status_response ''Not Found'') (session True 0 [] None None)
     = dispatch example_env (FETCH_TASK_FAILURE ''Error fetching stats: Not Found'') (session True 0 [] None None)"
  using transport_failure_message
    [where resp = "\<lparr>ok = False, statusText = ''Not Found'', json_result = Inl ''Unexpected token''\<rparr>"
       and e = example_env and itemId = "Some (JStr ''a'')" and cb = "SubmitJudgementCallback 0 []"
       and s = "session True 0 [] None None"]
  by (simp add: status_response_def del: settled.simps)

text \<open>
  A \<open>Not Found\<close> answer to the GET of \<open>/batch?\<close> ends in a failure action whose
  message is longer than the status text.
\<close>

theorem transport_failure_message_counterexample:
  "\<not> ok \<lparr>ok = False, statusText = ''Not Found'', json_result = Inl ''Unexpected token''\<rparr>
   \<and> map_option trace
       (settle example_env 0
          (Resolved \<lparr>ok = False, statusText = ''Not Found'', json_result = Inl ''Unexpected token''\<rparr>)
          (getNextBatch example_env None (session False 0 [] None None)))
     = Some [Dispatch FETCH_ITEMS, Fetch (get_request ''/batch?''),
             Dispatch (FETCH_ITEMS_FAILURE ''Error fetching batch items: Not Found'')]
   \<and> FETCH_ITEMS_FAILURE ''Error fetching batch items: Not Found'' \<noteq> FETCH_ITEMS_FAILURE ''Not Found''"
  by (simp add: settle_def session_fields response_json_def fetchItemsFailure_def
        URLSearchParams_toString_def)

section \<open>Batch paging and the view mode\<close>

text \<open>
  Claim C5. \<open>fetchNextBatchItemsBatch\<close> issues a GET of \<open>/batch_items_batch\<close>. When
  the response is \<open>{done: true}\<close> the only action dispatched is
  \<open>BATCH_LABELLING_COMPLETE\<close>; when it is a list the only action dispatched is
  \<open>FETCH_BATCH_ITEMS_SUCCESS\<close> carrying that list.
\<close>

theorem batch_completion_transition:
  "events_since s (fetchNextBatchItemsBatch e s)
     = [Dispatch FETCH_BATCH_ITEMS, Fetch \<lparr>url = ''/batch_items_batch'', verb = GET, headers = [], body = None\<rparr>]
   \<and> map_option (events_since (fetchNextBatchItemsBatch e s))
       (settle e (length (pending s))
          (Resolved \<lparr>ok = True, statusText = t, json_result = Inr (JObj [(''done'', JBool True)])\<rparr>)
          (fetchNextBatchItemsBatch e s))
     = Some [Dispatch BATCH_LABELLING_COMPLETE]
   \<and> map_option (events_since (fetchNextBatchItemsBatch e s))
       (settle e (length (pending s))
          (Resolved \<lparr>ok = True, statusText = t, json_result = Inr (JArr xs)\<rparr>)
          (fetchNextBatchItemsBatch e s))
     = Some [Dispatch (FETCH_BATCH_ITEMS_SUCCESS (JArr xs))]"
  by (simp add: settle_last [where ps = "pending s" and k = FetchNextBatchItemsBatchThen]
        response_json_def batchLabellingComplete_def fetchBatchItemsSuccess_def
        events_since_def get_request_def)




lemma toggle_built_for_supported_tasks:
  assumes "task_dataType st = Some (JStr ''images'')"
    and "task_labelType st = Some (JStr ''binary'') \<or> task_labelType st = Some (JStr ''classification'')"
  shows "\<exists>t. toggleBatchView st = Some t \<and> handlers t = [onClickSingle, onClickBatch]"
  using assms by (auto simp: toggleBatchView_def)

lemma returned_tree_mounts_no_handler: "handlers (render st) = []"
  by (simp add: render_def)

end
